theory Spec2Isabelle
  imports Complex_Main
begin

section \<open>Skeletal skinning (minko, component/Skinning.cpp)\<close>

text \<open>
  The component deforms the vertices of a mesh from the bone matrices of an animation
  frame. Floats are kept abstract: the arithmetic of the blending loop is written over an
  arbitrary type with \<open>0\<close>, \<open>+\<close> and \<open>*\<close>, in the evaluation order of the C++
  expressions, so that nothing is assumed about associativity or rounding. Only where a
  statement needs the laws \<open>1 * a = a\<close>, \<open>0 * a = 0\<close> and \<open>a + 0 = a\<close> is the
  type restricted to a semiring.

  Unsigned 32-bit integers are natural numbers; arithmetic done in \<open>unsigned int\<close>
  is wrapped with \<open>u32\<close>. Reading or writing a \<open>std::vector\<close> out of range,
  dereferencing a null pointer and dividing by zero are undefined in C++; the model
  stops there with an error value.
\<close>

subsection \<open>Machine integers and errors\<close>

definition u32 :: "nat \<Rightarrow> nat" where
  "u32 n = n mod 2 ^ 32"

datatype error =
    InvalidArgument string
  | LogicError string
  | AssertionFailure
  | OutOfRange
  | NullPointer
  | DivisionByZero
  | MissingProperty string

subsection \<open>The animation data source\<close>

text \<open>
  Modelled from the spec: class \<open>Skin\<close> (geometry/Skin.hpp) is not part of the sources.
  Its accessors used by the component are the fields of this record: the counts, the
  duration, the per-vertex bone count, bone id and bone weight at a position of the
  vertex's influence list, the flat array of row-major 4x4 bone matrices of a frame, and
  the frame the skin resolves for an elapsed time.
\<close>

record 'a Skin =
  numVertices :: nat
  numBones :: nat
  numFrames :: nat
  duration :: 'a
  maxNumVertexBones :: nat
  numVertexBones :: "nat \<Rightarrow> nat"
  vertexBoneId :: "nat \<Rightarrow> nat \<Rightarrow> nat"
  vertexBoneWeight :: "nat \<Rightarrow> nat \<Rightarrow> 'a"
  matrices :: "nat \<Rightarrow> 'a list"
  getFrameId :: "'a \<Rightarrow> nat"

text \<open>
  Modelled from the spec: \<open>Skin::vertexBoneData(vId, j, boneId, boneWeight)\<close> stores the
  j-th (boneId, weight) pair of vertex \<open>vId\<close> into its two reference arguments.
\<close>

definition vertexBoneData :: "'a Skin \<Rightarrow> nat \<Rightarrow> nat \<Rightarrow> nat \<times> 'a" where
  "vertexBoneData sk vId j = (vertexBoneId sk vId j, vertexBoneWeight sk vId j)"

datatype SkinningMethod = SOFTWARE | HARDWARE

definition MAX_NUM_BONES_PER_VERTEX :: nat where
  "MAX_NUM_BONES_PER_VERTEX = 8"

definition PNAME_NUM_BONES :: string where
  "PNAME_NUM_BONES = ''geometry.numBones''"

definition PNAME_BONE_MATRICES :: string where
  "PNAME_BONE_MATRICES = ''geometry.boneMatrices''"

definition ATTRNAME_POSITION :: string where
  "ATTRNAME_POSITION = ''position''"

definition ATTRNAME_NORMAL :: string where
  "ATTRNAME_NORMAL = ''normal''"

definition ATTRNAME_BONE_IDS_A :: string where
  "ATTRNAME_BONE_IDS_A = ''boneIdsA''"

definition ATTRNAME_BONE_IDS_B :: string where
  "ATTRNAME_BONE_IDS_B = ''boneIdsB''"

definition ATTRNAME_BONE_WEIGHTS_A :: string where
  "ATTRNAME_BONE_WEIGHTS_A = ''boneWeightsA''"

definition ATTRNAME_BONE_WEIGHTS_B :: string where
  "ATTRNAME_BONE_WEIGHTS_B = ''boneWeightsB''"

subsection \<open>Software skinning of one attribute\<close>

text \<open>
  The body of the loop over the bones of a vertex (lines 382 to 403): one weighted
  contribution of bone \<open>boneId\<close> is added to the accumulator \<open>(x2, y2, z2)\<close>. The matrix
  of the bone starts at \<open>boneId << 4\<close>, computed in \<open>unsigned int\<close>. The position
  transform reads the entries 0 to 11 of the matrix, the delta transform 0 to 10.
\<close>

definition boneContribution ::
  "bool \<Rightarrow> 'a list \<Rightarrow> 'a \<times> 'a \<times> 'a \<Rightarrow> nat \<Rightarrow> 'a \<Rightarrow> 'a \<times> 'a \<times> 'a
    \<Rightarrow> error + (('a::{plus,times}) \<times> 'a \<times> 'a)" where
  "boneContribution doDeltaTransform boneMatrices p1 boneId boneWeight acc =
     (case p1 of (x1, y1, z1) \<Rightarrow> case acc of (x2, y2, z2) \<Rightarrow>
      let b = u32 (push_bit 4 boneId); m = (\<lambda>k. boneMatrices ! (b + k)) in
      if \<not> doDeltaTransform then
        if b + 11 < length boneMatrices then
          Inr (x2 + boneWeight * (m 0 * x1 + m 1 * y1 + m 2 * z1 + m 3),
               y2 + boneWeight * (m 4 * x1 + m 5 * y1 + m 6 * z1 + m 7),
               z2 + boneWeight * (m 8 * x1 + m 9 * y1 + m 10 * z1 + m 11))
        else Inl OutOfRange
      else
        if b + 10 < length boneMatrices then
          Inr (x2 + boneWeight * (m 0 * x1 + m 1 * y1 + m 2 * z1),
               y2 + boneWeight * (m 4 * x1 + m 5 * y1 + m 6 * z1),
               z2 + boneWeight * (m 8 * x1 + m 9 * y1 + m 10 * z1))
        else Inl OutOfRange)"

text \<open>The loop \<open>for (j = 0; j < numVertexBones; ++j)\<close> of one vertex.\<close>

function boneLoop ::
  "'a Skin \<Rightarrow> bool \<Rightarrow> 'a list \<Rightarrow> 'a \<times> 'a \<times> 'a \<Rightarrow> nat \<Rightarrow> nat \<Rightarrow> nat \<Rightarrow> 'a \<times> 'a \<times> 'a
    \<Rightarrow> error + (('a::{plus,times}) \<times> 'a \<times> 'a)" where
  "boneLoop sk doDeltaTransform boneMatrices p1 vId numVertexBones_v j acc =
     (if j < numVertexBones_v then
        (case vertexBoneData sk vId j of (boneId, boneWeight) \<Rightarrow>
           case boneContribution doDeltaTransform boneMatrices p1 boneId boneWeight acc of
             Inl e \<Rightarrow> Inl e
           | Inr acc' \<Rightarrow>
               boneLoop sk doDeltaTransform boneMatrices p1 vId numVertexBones_v (j + 1) acc')
      else Inr acc)"
  by pat_completeness auto
termination
  by (relation "measure (\<lambda>(sk, dd, bm, p1, vId, n, j, acc). n - j)") auto

text \<open>
  The loop over the vertices (lines 370 to 410). \<open>index\<close> starts at the offset of the
  attribute and advances by the vertex size; the bind-pose coordinate is read from
  \<open>inputData\<close>, the result is written to \<open>outputData\<close> at the same index.
\<close>

function vertexLoop ::
  "'a Skin \<Rightarrow> bool \<Rightarrow> 'a list \<Rightarrow> 'a list \<Rightarrow> nat \<Rightarrow> nat \<Rightarrow> nat \<Rightarrow> nat \<Rightarrow> 'a list
    \<Rightarrow> error + ('a::{zero,plus,times}) list" where
  "vertexLoop sk doDeltaTransform inputData boneMatrices vertexSize numVertices_vb vId index
       outputData =
     (if vId < numVertices_vb then
        if index < length inputData \<and> u32 (index + 1) < length inputData
            \<and> u32 (index + 2) < length inputData then
          (let x1 = inputData ! index;
               y1 = inputData ! u32 (index + 1);
               z1 = inputData ! u32 (index + 2) in
           case boneLoop sk doDeltaTransform boneMatrices (x1, y1, z1) vId
                  (numVertexBones sk vId) 0 (0, 0, 0) of
             Inl e \<Rightarrow> Inl e
           | Inr (x2, y2, z2) \<Rightarrow>
               if index < length outputData \<and> u32 (index + 1) < length outputData
                   \<and> u32 (index + 2) < length outputData then
                 vertexLoop sk doDeltaTransform inputData boneMatrices vertexSize
                   numVertices_vb (vId + 1) (u32 (index + vertexSize))
                   (outputData[index := x2, u32 (index + 1) := y2, u32 (index + 2) := z2])
               else Inl OutOfRange)
        else Inl OutOfRange
      else Inr outputData)"
  by pat_completeness auto
termination
  by (relation "measure (\<lambda>(sk, dd, inp, bm, vs, n, vId, idx, out). n - vId)") auto

text \<open>
  Modelled from the spec: class \<open>VertexBuffer\<close> (render/VertexBuffer.hpp) is not part of
  the sources. A vertex buffer exposes its raw float storage, its named attributes
  (name, width, offset), its vertex size (the stride of a row) and its number of
  vertices; \<open>upload\<close> sends the storage to the rendering backend, counted here.
\<close>

type_synonym Attribute = "string \<times> nat \<times> nat"

record 'a VertexBuffer =
  vb_data :: "'a list"
  vb_attributes :: "Attribute list"
  vb_vertexSize :: nat
  vb_numVertices :: nat
  vb_uploads :: nat

definition upload :: "'a VertexBuffer \<Rightarrow> 'a VertexBuffer" where
  "upload vb = vb\<lparr>vb_uploads := vb_uploads vb + 1\<rparr>"

text \<open>
  \<open>performSoftwareSkinning(attr, vertexBuffer, inputData, boneMatrices, doDeltaTransform)\<close>
  (lines 348 to 413). \<open>attr\<close> is a pointer that may be null; the vertex buffer is
  returned with its new data.
\<close>

definition performSoftwareSkinningAttr ::
  "'a Skin \<Rightarrow> Attribute option \<Rightarrow> 'a VertexBuffer \<Rightarrow> 'a list \<Rightarrow> 'a list \<Rightarrow> bool
    \<Rightarrow> error + ('a::{zero,plus,times}) VertexBuffer" where
  "performSoftwareSkinningAttr sk attr vertexBuffer inputData boneMatrices doDeltaTransform =
     (let vertexSize = vb_vertexSize vertexBuffer;
          outputData = vb_data vertexBuffer in
      if vertexSize = 0 then Inl DivisionByZero
      else
        let numVertices_vb = u32 (length outputData div vertexSize) in
        case attr of
          None \<Rightarrow> Inl NullPointer
        | Some (name, width, offset) \<Rightarrow>
            (case vertexLoop sk doDeltaTransform inputData boneMatrices vertexSize
                    numVertices_vb 0 offset outputData of
               Inl e \<Rightarrow> Inl e
             | Inr outputData' \<Rightarrow> Inr (upload (vertexBuffer\<lparr>vb_data := outputData'\<rparr>))))"

subsection \<open>The bone vertex buffer\<close>

text \<open>
  The two inner loops of \<open>createVertexBufferForBones\<close> (lines 254 to 258 and 262 to
  266) are the same loop, \<open>while (j < numVertexBones && j < (vertexSize >> 2))\<close>, writing
  \<open>value j\<close> at \<open>index + j\<close>: first the bone ids converted to float, then the weights.
\<close>

definition boneVertexSize :: nat where
  "boneVertexSize = 16"

function fillLoop ::
  "(nat \<Rightarrow> 'a) \<Rightarrow> nat \<Rightarrow> nat \<Rightarrow> nat \<Rightarrow> 'a list \<Rightarrow> error + 'a list" where
  "fillLoop val numVertexBones_v index j vertexData =
     (if j < numVertexBones_v \<and> j < drop_bit 2 boneVertexSize then
        if u32 (index + j) < length vertexData then
          fillLoop val numVertexBones_v index (j + 1) (vertexData[u32 (index + j) := val j])
        else Inl OutOfRange
      else Inr vertexData)"
  by pat_completeness auto
termination
  by (relation "measure (\<lambda>(val, n, index, j, vd). drop_bit 2 boneVertexSize - j)") auto

text \<open>The loop over the vertices (lines 249 to 268).\<close>

function packLoop ::
  "'a Skin \<Rightarrow> nat \<Rightarrow> nat \<Rightarrow> nat \<Rightarrow> 'a list \<Rightarrow> error + ('a::semiring_1) list" where
  "packLoop sk numVertices_sk vId index vertexData =
     (if vId < numVertices_sk then
        (let numVertexBones_v = numVertexBones sk vId in
         case fillLoop (\<lambda>j. of_nat (vertexBoneId sk vId j)) numVertexBones_v index 0
                vertexData of
           Inl e \<Rightarrow> Inl e
         | Inr vertexData1 \<Rightarrow>
             (let index1 = u32 (index + drop_bit 1 boneVertexSize) in
              case fillLoop (\<lambda>j. vertexBoneWeight sk vId j) numVertexBones_v index1 0
                     vertexData1 of
                Inl e \<Rightarrow> Inl e
              | Inr vertexData2 \<Rightarrow>
                  packLoop sk numVertices_sk (vId + 1)
                    (u32 (index1 + drop_bit 1 boneVertexSize)) vertexData2))
      else Inr vertexData)"
  by pat_completeness auto
termination
  by (relation "measure (\<lambda>(sk, n, vId, index, vd). n - vId)") auto

text \<open>
  \<open>createVertexBufferForBones\<close> (lines 238 to 282). The assertion on the bone cap is
  a failure of the model. Modelled from the spec: \<open>VertexBuffer::create\<close> and
  \<open>addAttribute\<close> are not part of the sources; the buffer created holds the packed
  data and the four attributes of width 4 at the offsets 0, 4, 8 and 12, in rows of 16
  floats.
\<close>

definition createVertexBufferForBones :: "'a Skin \<Rightarrow> error + ('a::semiring_1) VertexBuffer" where
  "createVertexBufferForBones sk =
     (if \<not> maxNumVertexBones sk \<le> MAX_NUM_BONES_PER_VERTEX then Inl AssertionFailure
      else
        let numVertices_sk = numVertices sk;
            vertexData = replicate (u32 (numVertices_sk * boneVertexSize)) 0 in
        case packLoop sk numVertices_sk 0 0 vertexData of
          Inl e \<Rightarrow> Inl e
        | Inr vertexData' \<Rightarrow>
            Inr \<lparr> vb_data = vertexData',
                  vb_attributes = [(ATTRNAME_BONE_IDS_A, 4, 0), (ATTRNAME_BONE_IDS_B, 4, 4),
                                   (ATTRNAME_BONE_WEIGHTS_A, 4, 8), (ATTRNAME_BONE_WEIGHTS_B, 4, 12)],
                  vb_vertexSize = boneVertexSize,
                  vb_numVertices = length vertexData' div boneVertexSize,
                  vb_uploads = 0 \<rparr>)"

subsection \<open>Scene, geometries and the state of the component\<close>

type_synonym node = nat
type_synonym geometryRef = nat
type_synonym vertexBufferRef = nat
type_synonym sceneManagerRef = nat

text \<open>
  A value of the property store of a geometry: an integer, or a uniform array, the pair
  of a count and a pointer to a float array. The only arrays pointed to are the matrix
  arrays of the frames of the skin, so the pointer is the frame id, or \<open>None\<close> for
  \<open>nullptr\<close>.
\<close>

datatype PropertyValue = IntValue int | UniformArray nat "nat option"

text \<open>
  Modelled from the spec: class \<open>Geometry\<close> and its property store
  (\<open>data::Provider\<close>) are not part of the sources. A geometry is the list of its vertex
  buffers and a key/value store; \<open>addVertexBuffer\<close> appends a buffer,
  \<open>removeVertexBuffer\<close> removes it, \<open>set\<close> binds a name and \<open>unset\<close> removes the
  binding. \<open>vertexBuffer(name)\<close> is the buffer of the geometry that has an attribute
  of that name and \<open>hasVertexAttribute(name)\<close> says whether there is one.
\<close>

record Geometry =
  g_vertexBuffers :: "vertexBufferRef list"
  g_data :: "string \<rightharpoonup> PropertyValue"

definition addVertexBuffer :: "Geometry \<Rightarrow> vertexBufferRef \<Rightarrow> Geometry" where
  "addVertexBuffer g vb = g\<lparr>g_vertexBuffers := g_vertexBuffers g @ [vb]\<rparr>"

definition removeVertexBuffer :: "Geometry \<Rightarrow> vertexBufferRef \<Rightarrow> Geometry" where
  "removeVertexBuffer g vb = g\<lparr>g_vertexBuffers := removeAll vb (g_vertexBuffers g)\<rparr>"

definition data_set :: "Geometry \<Rightarrow> string \<Rightarrow> PropertyValue \<Rightarrow> Geometry" where
  "data_set g name v = g\<lparr>g_data := (g_data g)(name \<mapsto> v)\<rparr>"

definition data_unset :: "Geometry \<Rightarrow> string \<Rightarrow> Geometry" where
  "data_unset g name = g\<lparr>g_data := (g_data g)(name := None)\<rparr>"

text \<open>
  Modelled from the spec: the scene graph (\<open>Node\<close>, \<open>NodeSet\<close>, \<open>Surface\<close>,
  \<open>SceneManager\<close>, \<open>AbstractComponent::targets\<close>) is not part of the sources. The
  world holds the targets of the component, the root ancestor of every node, the
  scene manager a node carries (if any), the geometry of the surface a node carries (if
  any), and the heap of the geometries and vertex buffers that the shared pointers of
  the code refer to.
\<close>

record 'a World =
  w_targets :: "node list"
  w_root :: "node \<Rightarrow> node"
  w_sceneManager :: "node \<Rightarrow> sceneManagerRef option"
  w_surface :: "node \<Rightarrow> geometryRef option"
  w_geometries :: "geometryRef \<Rightarrow> Geometry"
  w_vertexBuffers :: "vertexBufferRef \<Rightarrow> 'a VertexBuffer"
  w_nextVertexBuffer :: vertexBufferRef

definition hasAttribute :: "'a VertexBuffer \<Rightarrow> string \<Rightarrow> bool" where
  "hasAttribute vb name = (name \<in> set (map fst (vb_attributes vb)))"

definition vertexBuffer :: "'a World \<Rightarrow> Geometry \<Rightarrow> string \<Rightarrow> vertexBufferRef option" where
  "vertexBuffer w g name =
     find (\<lambda>r. hasAttribute (w_vertexBuffers w r) name) (g_vertexBuffers g)"

definition hasVertexAttribute :: "'a World \<Rightarrow> Geometry \<Rightarrow> string \<Rightarrow> bool" where
  "hasVertexAttribute w g name = (vertexBuffer w g name \<noteq> None)"

text \<open>
  Modelled from the spec: \<open>NodeSet::roots\<close> gives the distinct root ancestors of the
  nodes of the set and \<open>NodeSet::where\<close> keeps the nodes that satisfy a predicate.
\<close>

definition nodeSet_roots :: "'a World \<Rightarrow> node list \<Rightarrow> node list" where
  "nodeSet_roots w ns = remdups (map (w_root w) ns)"

definition nodeSet_where :: "(node \<Rightarrow> bool) \<Rightarrow> node list \<Rightarrow> node list" where
  "nodeSet_where P ns = filter P ns"

text \<open>
  The members of class \<open>Skinning\<close>. A slot is the connection to a signal: the slots of
  the target signals are connected or not, the slots of the node signals name the
  target they listen to, and the frame slot names the scene manager whose per-frame
  tick the component is subscribed to.
\<close>

record 'a Skinning =
  m_skin :: "'a Skin option"
  m_context :: "nat option"
  m_method :: SkinningMethod
  m_boneVertexBuffer :: "vertexBufferRef option"
  m_targetGeometry :: "node \<rightharpoonup> geometryRef"
  m_targetStartTime :: "node \<rightharpoonup> int"
  m_targetInputPositions :: "node \<rightharpoonup> 'a list"
  m_targetInputNormals :: "node \<rightharpoonup> 'a list"
  m_targetAddedSlot :: bool
  m_targetRemovedSlot :: bool
  m_addedSlot :: "node option"
  m_removedSlot :: "node option"
  m_frameBeginSlot :: "sceneManagerRef option"

text \<open>The constructor (lines 51 to 69).\<close>

definition Skinning_new :: "'a Skin option \<Rightarrow> SkinningMethod \<Rightarrow> nat option \<Rightarrow> 'a Skinning" where
  "Skinning_new sk meth ctx =
     \<lparr> m_skin = sk, m_context = ctx, m_method = meth, m_boneVertexBuffer = None,
       m_targetGeometry = Map.empty, m_targetStartTime = Map.empty,
       m_targetInputPositions = Map.empty, m_targetInputNormals = Map.empty,
       m_targetAddedSlot = False, m_targetRemovedSlot = False,
       m_addedSlot = None, m_removedSlot = None, m_frameBeginSlot = None \<rparr>"

text \<open>
  \<open>initialize\<close> (lines 71 to 106). The warning written to \<open>std::cerr\<close> is not part of
  the state. The bone vertex buffer, when one is created, is stored at the next free
  reference of the heap.
\<close>

definition initialize ::
  "'a Skinning \<Rightarrow> 'a World \<Rightarrow> error + ('a::semiring_1) Skinning \<times> 'a World" where
  "initialize st w =
     (case m_skin st of
        None \<Rightarrow> Inl (InvalidArgument ''skin'')
      | Some sk \<Rightarrow>
          if m_context st = None then Inl (InvalidArgument ''context'')
          else
            let st1 = (if m_method st \<noteq> SOFTWARE
                          \<and> maxNumVertexBones sk > MAX_NUM_BONES_PER_VERTEX
                       then st\<lparr>m_method := SOFTWARE\<rparr> else st) in
            if m_method st1 = SOFTWARE then
              Inr (st1\<lparr>m_boneVertexBuffer := None,
                       m_targetAddedSlot := True, m_targetRemovedSlot := True\<rparr>, w)
            else
              (case createVertexBufferForBones sk of
                 Inl e \<Rightarrow> Inl e
               | Inr vb \<Rightarrow>
                   let r = w_nextVertexBuffer w in
                   Inr (st1\<lparr>m_boneVertexBuffer := Some r,
                            m_targetAddedSlot := True, m_targetRemovedSlot := True\<rparr>,
                        w\<lparr>w_vertexBuffers := (w_vertexBuffers w)(r := vb),
                          w_nextVertexBuffer := r + 1\<rparr>)))"

text \<open>\<open>targetAddedHandler\<close> and \<open>targetRemovedHandler\<close> (lines 108 to 133).\<close>

definition targetAddedHandler :: "'a Skinning \<Rightarrow> node \<Rightarrow> 'a Skinning" where
  "targetAddedHandler st target = st\<lparr>m_addedSlot := Some target, m_removedSlot := Some target\<rparr>"

definition targetRemovedHandler :: "'a Skinning \<Rightarrow> node \<Rightarrow> 'a Skinning" where
  "targetRemovedHandler st target = st\<lparr>m_addedSlot := None, m_removedSlot := None\<rparr>"

text \<open>\<open>setSceneManager\<close> (lines 215 to 236); the loop over the targets has an empty body.\<close>

definition setSceneManager :: "'a Skinning \<Rightarrow> sceneManagerRef option \<Rightarrow> 'a Skinning" where
  "setSceneManager st sceneManager =
     (case sceneManager of
        Some sm \<Rightarrow> st\<lparr>m_frameBeginSlot := Some sm\<rparr>
      | None \<Rightarrow> if m_frameBeginSlot st \<noteq> None then st\<lparr>m_frameBeginSlot := None\<rparr> else st)"

text \<open>
  \<open>findSceneManager\<close> (lines 197 to 213). \<open>driverRoots\<close> is the node set
  \<open>NodeSet::create(targets())->roots()->where(hasComponent<SceneManager>)\<close>.
\<close>

definition driverRoots :: "'a World \<Rightarrow> node list" where
  "driverRoots w =
     nodeSet_where (\<lambda>n. w_sceneManager w n \<noteq> None) (nodeSet_roots w (w_targets w))"

definition findSceneManager :: "'a Skinning \<Rightarrow> 'a World \<Rightarrow> error + 'a Skinning" where
  "findSceneManager st w =
     (let roots = driverRoots w in
      if length roots > 1 then
        Inl (LogicError ''Renderer cannot be in two separate scenes.'')
      else if length roots = 1 then
        Inr (setSceneManager st (w_sceneManager w (roots ! 0)))
      else Inr (setSceneManager st None))"

text \<open>
  The float literal \<open>1e-6f\<close> of line 140: the binary32 number nearest to one
  millionth, \<open>8796093 * 2^-43\<close> (bit pattern \<open>0x358637BD\<close>), slightly below it.
\<close>

definition literal_1e_6f :: "'a::linordered_field" where
  "literal_1e_6f = 8796093 / 2 ^ 43"

text \<open>
  \<open>addedHandler\<close> (lines 135 to 169). \<open>now\<close> is the value of
  \<open>(clock_t)(clock() / (float)CLOCKS_PER_SEC)\<close> at the call. The tests
  \<open>hasVertexAttribute(name) && vertexBuffer(name)->numVertices() == numVertices\<close> are the
  case distinctions on the buffer found for the name.
\<close>

definition addedHandler ::
  "'a Skinning \<Rightarrow> 'a World \<Rightarrow> int \<Rightarrow> node \<Rightarrow> node \<Rightarrow> node
    \<Rightarrow> error + ('a::linordered_field) Skinning \<times> 'a World" where
  "addedHandler st w now node target parent =
     (case findSceneManager st w of
        Inl e \<Rightarrow> Inl e
      | Inr st1 \<Rightarrow>
     (case m_skin st1 of
        None \<Rightarrow> Inl NullPointer
      | Some sk \<Rightarrow>
          if duration sk < literal_1e_6f then Inr (st1, w)
          else
     (case w_surface w node of
        None \<Rightarrow> Inr (st1, w)
      | Some gr \<Rightarrow>
          let geometry = w_geometries w gr in
     (case vertexBuffer w geometry ATTRNAME_POSITION of
        None \<Rightarrow> Inr (st1, w)
      | Some xyz \<Rightarrow>
          if vb_numVertices (w_vertexBuffers w xyz) = numVertices sk then
            let st2 = st1\<lparr>m_targetGeometry := (m_targetGeometry st1)(node \<mapsto> gr),
                          m_targetStartTime := (m_targetStartTime st1)(node \<mapsto> now),
                          m_targetInputPositions :=
                            (m_targetInputPositions st1)(node \<mapsto> vb_data (w_vertexBuffers w xyz))\<rparr>;
                st3 = (case vertexBuffer w geometry ATTRNAME_NORMAL of
                         None \<Rightarrow> st2
                       | Some nrm \<Rightarrow>
                           if vb_numVertices (w_vertexBuffers w nrm) = numVertices sk then
                             st2\<lparr>m_targetInputNormals :=
                                   (m_targetInputNormals st2)(node \<mapsto> vb_data (w_vertexBuffers w nrm))\<rparr>
                           else st2)
            in
            if m_method st3 \<noteq> SOFTWARE then
              (case m_boneVertexBuffer st3 of
                 None \<Rightarrow> Inl NullPointer
               | Some bvb \<Rightarrow>
                   let g1 = addVertexBuffer geometry bvb;
                       g2 = data_set g1 PNAME_BONE_MATRICES (UniformArray 0 None);
                       g3 = data_set g2 PNAME_NUM_BONES (IntValue 0)
                   in Inr (st3, w\<lparr>w_geometries := (w_geometries w)(gr := g3)\<rparr>))
            else Inr (st3, w)
          else Inr (st1, w)))))"

text \<open>\<open>removedHandler\<close> (lines 171 to 195).\<close>

definition removedHandler ::
  "'a Skinning \<Rightarrow> 'a World \<Rightarrow> node \<Rightarrow> node \<Rightarrow> node \<Rightarrow> error + 'a Skinning \<times> 'a World" where
  "removedHandler st w node target parent =
     (case findSceneManager st w of
        Inl e \<Rightarrow> Inl e
      | Inr st1 \<Rightarrow>
          let erased = st1\<lparr>m_targetGeometry := (m_targetGeometry st1)(target := None),
                           m_targetStartTime := (m_targetStartTime st1)(target := None),
                           m_targetInputPositions := (m_targetInputPositions st1)(target := None),
                           m_targetInputNormals := (m_targetInputNormals st1)(target := None)\<rparr>
          in
          (case m_targetGeometry st1 target of
             None \<Rightarrow> Inr (erased, w)
           | Some gr \<Rightarrow>
               if m_method st1 \<noteq> SOFTWARE then
                 (case m_boneVertexBuffer st1 of
                    None \<Rightarrow> Inl NullPointer
                  | Some bvb \<Rightarrow>
                      let g1 = removeVertexBuffer (w_geometries w gr) bvb;
                          g2 = data_unset g1 PNAME_BONE_MATRICES;
                          g3 = data_unset g2 PNAME_NUM_BONES
                      in Inr (erased, w\<lparr>w_geometries := (w_geometries w)(gr := g3)\<rparr>))
               else Inr (erased, w)))"

subsection \<open>The frame update\<close>

text \<open>
  The loop \<open>for (auto& attr : attributes) if (std::get<0>(*attr) == name) found = attr\<close>
  of lines 328 to 331 and 339 to 342: the last attribute of that name, or null.
\<close>

definition findAttribute :: "Attribute list \<Rightarrow> string \<Rightarrow> Attribute option" where
  "findAttribute attrs name =
     foldl (\<lambda>found attr. if fst attr = name then Some attr else found) None attrs"

text \<open>
  \<open>performSoftwareSkinning(target, boneMatrices)\<close> (lines 316 to 346). Indexing a
  \<open>std::unordered_map\<close> with a key it does not hold inserts a default value: an empty
  vector for the input positions, a null geometry (dereferenced at once) for the
  geometry. Modelled from the spec: \<open>geometry->vertexBuffer(name)\<close> without a buffer of
  that attribute is an error.
\<close>

definition performSoftwareSkinning ::
  "'a Skinning \<Rightarrow> 'a World \<Rightarrow> node \<Rightarrow> 'a list
    \<Rightarrow> error + ('a::{zero,plus,times}) Skinning \<times> 'a World" where
  "performSoftwareSkinning st w target boneMatrices =
     (case m_targetGeometry st target of
        None \<Rightarrow> Inl NullPointer
      | Some gr \<Rightarrow>
     (case vertexBuffer w (w_geometries w gr) ATTRNAME_POSITION of
        None \<Rightarrow> Inl (MissingProperty ATTRNAME_POSITION)
      | Some xyzBuffer \<Rightarrow>
          let xyzAttr = findAttribute (vb_attributes (w_vertexBuffers w xyzBuffer)) ATTRNAME_POSITION;
              inputPositions = (case m_targetInputPositions st target of
                                  None \<Rightarrow> [] | Some d \<Rightarrow> d);
              st1 = st\<lparr>m_targetInputPositions :=
                         (m_targetInputPositions st)(target \<mapsto> inputPositions)\<rparr>
          in
     (case m_skin st1 of
        None \<Rightarrow> Inl NullPointer
      | Some sk \<Rightarrow>
     (case performSoftwareSkinningAttr sk xyzAttr (w_vertexBuffers w xyzBuffer) inputPositions
             boneMatrices False of
        Inl e \<Rightarrow> Inl e
      | Inr xyzBuffer' \<Rightarrow>
          let w1 = w\<lparr>w_vertexBuffers := (w_vertexBuffers w)(xyzBuffer := xyzBuffer')\<rparr> in
          if hasVertexAttribute w1 (w_geometries w1 gr) ATTRNAME_NORMAL
              \<and> m_targetInputNormals st1 target \<noteq> None then
            (case vertexBuffer w1 (w_geometries w1 gr) ATTRNAME_NORMAL of
               None \<Rightarrow> Inl (MissingProperty ATTRNAME_NORMAL)
             | Some normalBuffer \<Rightarrow>
                 let normalAttr = findAttribute (vb_attributes (w_vertexBuffers w1 normalBuffer))
                                    ATTRNAME_NORMAL;
                     inputNormals = (case m_targetInputNormals st1 target of
                                       None \<Rightarrow> [] | Some d \<Rightarrow> d)
                 in
                 (case performSoftwareSkinningAttr sk normalAttr (w_vertexBuffers w1 normalBuffer)
                         inputNormals boneMatrices True of
                    Inl e \<Rightarrow> Inl e
                  | Inr normalBuffer' \<Rightarrow>
                      Inr (st1, w1\<lparr>w_vertexBuffers :=
                                     (w_vertexBuffers w1)(normalBuffer := normalBuffer')\<rparr>)))
          else Inr (st1, w1)))))"

text \<open>
  \<open>updateFrame\<close> (lines 294 to 314). The guard is evaluated left to right: the skin
  is only looked at for a registered target. On the hardware path the uniform array bound
  under \<open>geometry.boneMatrices\<close> is updated in place; modelled from the spec: \<open>get\<close> of
  a name that is not bound to a uniform array is an error.
\<close>

definition updateFrame ::
  "'a Skinning \<Rightarrow> 'a World \<Rightarrow> node \<Rightarrow> nat
    \<Rightarrow> error + ('a::{zero,plus,times}) Skinning \<times> 'a World" where
  "updateFrame st w target frameId =
     (case m_targetGeometry st target of
        None \<Rightarrow> Inr (st, w)
      | Some gr \<Rightarrow>
     (case m_skin st of
        None \<Rightarrow> Inl NullPointer
      | Some sk \<Rightarrow>
          if frameId \<ge> numFrames sk then Inr (st, w)
          else
            let boneMatrices = matrices sk frameId in
            if m_method st = HARDWARE then
              (let g1 = data_set (w_geometries w gr) PNAME_NUM_BONES (IntValue (int (numBones sk))) in
               case g_data g1 PNAME_BONE_MATRICES of
                 Some (UniformArray n ptr) \<Rightarrow>
                   Inr (st, w\<lparr>w_geometries := (w_geometries w)
                                (gr := data_set g1 PNAME_BONE_MATRICES
                                         (UniformArray (numBones sk) (Some frameId)))\<rparr>)
               | _ \<Rightarrow> Inl (MissingProperty PNAME_BONE_MATRICES))
            else performSoftwareSkinning st w target boneMatrices))"

text \<open>
  \<open>frameBeginHandler\<close> (lines 285 to 292). \<open>time\<close> is the value of
  \<open>clock() / (float)CLOCKS_PER_SEC\<close> at the call. The loop runs over the targets of
  the component; \<open>_targetStartTime[target]\<close> indexes the map and so inserts the start
  time 0 for a target the map does not hold, before \<open>updateFrame\<close> is called.
\<close>

fun frameLoop ::
  "'a Skinning \<Rightarrow> 'a World \<Rightarrow> 'a \<Rightarrow> node list
    \<Rightarrow> error + ('a::ring_1) Skinning \<times> 'a World" where
  "frameLoop st w time [] = Inr (st, w)"
| "frameLoop st w time (target # targets) =
     (case m_skin st of
        None \<Rightarrow> Inl NullPointer
      | Some sk \<Rightarrow>
          let startTime = (case m_targetStartTime st target of None \<Rightarrow> 0 | Some t \<Rightarrow> t);
              st1 = st\<lparr>m_targetStartTime := (m_targetStartTime st)(target \<mapsto> startTime)\<rparr>
          in
          (case updateFrame st1 w target (getFrameId sk (time - of_int startTime)) of
             Inl e \<Rightarrow> Inl e
           | Inr (st2, w2) \<Rightarrow> frameLoop st2 w2 time targets))"

definition frameBeginHandler ::
  "'a Skinning \<Rightarrow> 'a World \<Rightarrow> 'a \<Rightarrow> error + ('a::ring_1) Skinning \<times> 'a World" where
  "frameBeginHandler st w time = frameLoop st w time (w_targets w)"

subsection \<open>The blend as the specification words it\<close>

text \<open>
  The contribution of one (boneId, weight) pair to row \<open>r\<close> of the output
  (\<open>r = 0\<close> for x, 1 for y, 2 for z): \<open>w * (m0*x1 + m1*y1 + m2*z1 + m3)\<close> with the
  entries \<open>4r .. 4r+3\<close> of the matrix at \<open>boneId * 16\<close>; the delta transform drops
  the last summand. The output coordinate is the sum of the contributions, added up
  from \<open>0\<close> in the order of the influence list.
\<close>

definition rowTerm ::
  "bool \<Rightarrow> 'a list \<Rightarrow> nat \<Rightarrow> 'a \<times> 'a \<times> 'a \<Rightarrow> nat \<times> 'a \<Rightarrow> ('a::{plus,times})" where
  "rowTerm doDeltaTransform boneMatrices r p1 bw =
     (case p1 of (x1, y1, z1) \<Rightarrow> case bw of (boneId, w) \<Rightarrow>
      let m = (\<lambda>k. boneMatrices ! (boneId * 16 + 4 * r + k)) in
      if doDeltaTransform then w * (m 0 * x1 + m 1 * y1 + m 2 * z1)
      else w * (m 0 * x1 + m 1 * y1 + m 2 * z1 + m 3))"

definition weightedSum ::
  "bool \<Rightarrow> 'a list \<Rightarrow> nat \<Rightarrow> 'a \<times> 'a \<times> 'a \<Rightarrow> (nat \<times> 'a) list
    \<Rightarrow> ('a::{zero,plus,times})" where
  "weightedSum doDeltaTransform boneMatrices r p1 pairs =
     foldl (\<lambda>acc bw. acc + rowTerm doDeltaTransform boneMatrices r p1 bw) 0 pairs"

definition bonePairs :: "'a Skin \<Rightarrow> nat \<Rightarrow> (nat \<times> 'a) list" where
  "bonePairs sk vId = map (vertexBoneData sk vId) [0..<numVertexBones sk vId]"

definition bindPose :: "'a list \<Rightarrow> nat \<Rightarrow> nat \<Rightarrow> nat \<Rightarrow> 'a \<times> 'a \<times> 'a" where
  "bindPose inputData offset vertexSize vId =
     (inputData ! (offset + vId * vertexSize),
      inputData ! (offset + vId * vertexSize + 1),
      inputData ! (offset + vId * vertexSize + 2))"

text \<open>The three rows accumulated together, as the loop body does.\<close>

definition accTerm ::
  "bool \<Rightarrow> 'a list \<Rightarrow> 'a \<times> 'a \<times> 'a \<Rightarrow> 'a \<times> 'a \<times> 'a \<Rightarrow> nat \<times> 'a
    \<Rightarrow> ('a::{plus,times}) \<times> 'a \<times> 'a" where
  "accTerm dd bm p1 acc bw =
     (case acc of (x2, y2, z2) \<Rightarrow>
        (x2 + rowTerm dd bm 0 p1 bw, y2 + rowTerm dd bm 1 p1 bw, z2 + rowTerm dd bm 2 p1 bw))"

text \<open>
  The inputs on which the loop stays inside its vectors: the attribute's three floats
  fit in a row, the snapshot has the size of the live buffer, the matrix array holds 16
  floats per bone and every bone id of a vertex of the buffer names a bone. These are the
  assertions of the \<open>DEBUG_SKINNING\<close> build, with the sizes in the range of
  \<open>unsigned int\<close>.
\<close>

definition skinningInputsOk ::
  "'a Skin \<Rightarrow> 'a VertexBuffer \<Rightarrow> nat \<Rightarrow> 'a list \<Rightarrow> 'a list \<Rightarrow> bool" where
  "skinningInputsOk sk vb offset inputData boneMatrices \<longleftrightarrow>
     offset + 3 \<le> vb_vertexSize vb \<and>
     length (vb_data vb) < 2 ^ 32 \<and>
     length inputData = length (vb_data vb) \<and>
     length boneMatrices = 16 * numBones sk \<and>
     16 * numBones sk \<le> 2 ^ 32 \<and>
     (\<forall>v \<in> {..<length (vb_data vb) div vb_vertexSize vb}.
        \<forall>j \<in> {..<numVertexBones sk v}. vertexBoneId sk v j < numBones sk)"

text \<open>
  The normal pass of a target leaves the positions it follows alone: either the target
  has no normals to process, or the normal pass runs on well-formed inputs and the normal
  attribute does not overlap the position attribute when both live in the same buffer.
\<close>

definition normalPassOk ::
  "'a Skinning \<Rightarrow> 'a World \<Rightarrow> node \<Rightarrow> geometryRef \<Rightarrow> vertexBufferRef \<Rightarrow> nat \<Rightarrow> 'a Skin
    \<Rightarrow> 'a list \<Rightarrow> bool" where
  "normalPassOk st w target gr xyzBuffer offset sk boneMatrices \<longleftrightarrow>
     (case vertexBuffer w (w_geometries w gr) ATTRNAME_NORMAL of
        None \<Rightarrow> True
      | Some normalBuffer \<Rightarrow>
          (case m_targetInputNormals st target of
             None \<Rightarrow> True
           | Some inputNormals \<Rightarrow>
               (case findAttribute (vb_attributes (w_vertexBuffers w normalBuffer)) ATTRNAME_NORMAL of
                  None \<Rightarrow> False
                | Some (nname, nwidth, noffset) \<Rightarrow>
                    skinningInputsOk sk (w_vertexBuffers w normalBuffer) noffset inputNormals
                      boneMatrices
                    \<and> (normalBuffer \<noteq> xyzBuffer \<or> offset + 3 \<le> noffset
                         \<or> noffset + 3 \<le> offset))))"

text \<open>
  What the packing loop leaves in slot \<open>s\<close> of the row of vertex \<open>v\<close>, given what the
  slot held before: both inner loops stop at \<open>vertexSize >> 2 = 4\<close>, so the first four
  bone ids go to the slots 0 to 3 and the first four weights to the slots 8 to 11.
\<close>

definition packedSlot :: "'a Skin \<Rightarrow> nat \<Rightarrow> nat \<Rightarrow> 'a \<Rightarrow> ('a::semiring_1)" where
  "packedSlot sk v s old =
     (let n = min (numVertexBones sk v) 4 in
      if s < n then of_nat (vertexBoneId sk v s)
      else if 8 \<le> s \<and> s < 8 + n then vertexBoneWeight sk v (s - 8)
      else old)"

subsection \<open>The tracking state over the life of the component\<close>

text \<open>
  The key sets of the per-target maps: the geometry and the input positions are kept
  for the same nodes, the input normals for some of them, and every one of them has a
  start time.
\<close>

definition trackingInvariant :: "'a Skinning \<Rightarrow> bool" where
  "trackingInvariant st \<longleftrightarrow>
     dom (m_targetInputPositions st) = dom (m_targetGeometry st) \<and>
     dom (m_targetInputNormals st) \<subseteq> dom (m_targetGeometry st) \<and>
     dom (m_targetGeometry st) \<subseteq> dom (m_targetStartTime st)"

text \<open>
  The states of the component in a run: the component is constructed, initialised, and
  then \<open>addedHandler\<close>, \<open>removedHandler\<close> and \<open>frameBeginHandler\<close> run in any order,
  each in whatever the scene is at that moment. An operation that throws leaves no new
  state.
\<close>

inductive lifecycle :: "('a::linordered_field) Skinning \<Rightarrow> bool" where
  constructed: "lifecycle (Skinning_new sk meth ctx)"
| initialized: "lifecycle st \<Longrightarrow> initialize st w = Inr (st', w') \<Longrightarrow> lifecycle st'"
| attached:
    "lifecycle st \<Longrightarrow> addedHandler st w now node target parent = Inr (st', w') \<Longrightarrow> lifecycle st'"
| detached:
    "lifecycle st \<Longrightarrow> removedHandler st w node target parent = Inr (st', w') \<Longrightarrow> lifecycle st'"
| ticked:
    "lifecycle st \<Longrightarrow> frameBeginHandler st w time = Inr (st', w') \<Longrightarrow> lifecycle st'"

text \<open>
  The matrix of bone \<open>boneId\<close> is a pure translation by \<open>t\<close>: its first three rows
  are the rows of the identity followed by the components of \<open>t\<close>.
\<close>

definition pureTranslation :: "('a::{zero,one}) list \<Rightarrow> nat \<Rightarrow> 'a \<times> 'a \<times> 'a \<Rightarrow> bool" where
  "pureTranslation boneMatrices boneId t \<longleftrightarrow>
     (case t of (tx, ty, tz) \<Rightarrow>
        take 12 (drop (16 * boneId) boneMatrices)
          = [1, 0, 0, tx,  0, 1, 0, ty,  0, 0, 1, tz])"

subsection \<open>A small scene\<close>

text \<open>
  A skin of two vertices and one bone whose only frame translates by \<open>(5, 6, 7)\<close>:
  vertex 0 follows the bone with weight 1, vertex 1 has no influence. The mesh
  interleaves a position and a two-float attribute in rows of 5 floats. Node 0 carries
  the mesh and lies under root 9, which carries a scene manager.
\<close>

definition demoSkin :: "real Skin" where
  "demoSkin =
     \<lparr> numVertices = 2, numBones = 1, numFrames = 1, duration = 1, maxNumVertexBones = 1,
       numVertexBones = (\<lambda>v. if v = 0 then 1 else 0),
       vertexBoneId = (\<lambda>v j. 0),
       vertexBoneWeight = (\<lambda>v j. 1),
       matrices = (\<lambda>f. [1, 0, 0, 5,  0, 1, 0, 6,  0, 0, 1, 7,  0, 0, 0, 1]),
       getFrameId = (\<lambda>t. 0) \<rparr>"

definition demoBuffer :: "real VertexBuffer" where
  "demoBuffer =
     \<lparr> vb_data = [1, 2, 3, 40, 50,  4, 5, 6, 70, 80],
       vb_attributes = [(ATTRNAME_POSITION, 3, 0), (''uv'', 2, 3)],
       vb_vertexSize = 5, vb_numVertices = 2, vb_uploads = 0 \<rparr>"

definition demoWorld :: "real World" where
  "demoWorld =
     \<lparr> w_targets = [0],
       w_root = (\<lambda>n. 9),
       w_sceneManager = (\<lambda>n. if n = 9 then Some 0 else None),
       w_surface = (\<lambda>n. if n = 0 then Some 0 else None),
       w_geometries = (\<lambda>g. \<lparr> g_vertexBuffers = [0], g_data = Map.empty \<rparr>),
       w_vertexBuffers = (\<lambda>r. demoBuffer),
       w_nextVertexBuffer = 1 \<rparr>"

definition demoState :: "real Skinning" where
  "demoState =
     (Skinning_new (Some demoSkin) SOFTWARE (Some 0))
       \<lparr> m_targetGeometry := [0 \<mapsto> 0], m_targetStartTime := [0 \<mapsto> 0],
         m_targetInputPositions := [0 \<mapsto> vb_data demoBuffer] \<rparr>"

text \<open>
  Variants of the scene: a skin with up to 12 bones per vertex, a component as
  constructed for hardware skinning, and a scene whose two targets lie under two roots
  that both carry a scene manager.
\<close>

definition demoSkin12 :: "real Skin" where
  "demoSkin12 = demoSkin\<lparr>maxNumVertexBones := 12\<rparr>"

definition demoHardware :: "real Skin \<Rightarrow> real Skinning" where
  "demoHardware sk = Skinning_new (Some sk) HARDWARE (Some 0)"

definition demoWorldTwoScenes :: "real World" where
  "demoWorldTwoScenes =
     demoWorld\<lparr> w_targets := [0, 1],
                w_root := (\<lambda>n. n + 10),
                w_sceneManager := (\<lambda>n. if n = 10 \<or> n = 11 then Some n else None) \<rparr>"

text \<open>
  The component after \<open>initialize\<close> for software skinning, and after node 0 has been
  attached in the small scene; the component after \<open>initialize\<close> for hardware skinning,
  with its bone vertex buffer at reference 1.
\<close>

definition demoInitialized :: "real Skinning" where
  "demoInitialized =
     (Skinning_new (Some demoSkin) SOFTWARE (Some 0))
       \<lparr> m_targetAddedSlot := True, m_targetRemovedSlot := True \<rparr>"

definition demoAttached :: "real Skinning" where
  "demoAttached =
     demoInitialized
       \<lparr> m_targetGeometry := [0 \<mapsto> 0], m_targetStartTime := [0 \<mapsto> 7],
         m_targetInputPositions := [0 \<mapsto> vb_data demoBuffer],
         m_frameBeginSlot := Some 0 \<rparr>"

definition demoHardwareInitialized :: "real Skinning" where
  "demoHardwareInitialized =
     (demoHardware demoSkin)
       \<lparr> m_boneVertexBuffer := Some 1,
         m_targetAddedSlot := True, m_targetRemovedSlot := True \<rparr>"

text \<open>
  The hardware component and the scene after node 0 has been attached: the node is
  tracked, and its geometry carries the bone vertex buffer and the two bindings.
\<close>

definition demoHardwareAttached :: "real Skinning" where
  "demoHardwareAttached =
     demoHardwareInitialized
       \<lparr> m_targetGeometry := [0 \<mapsto> 0], m_targetStartTime := [0 \<mapsto> 7],
         m_targetInputPositions := [0 \<mapsto> vb_data demoBuffer],
         m_frameBeginSlot := Some 0 \<rparr>"

definition demoWorldSkinned :: "real World" where
  "demoWorldSkinned =
     demoWorld\<lparr> w_geometries := (w_geometries demoWorld)
       (0 := \<lparr> g_vertexBuffers = [0, 1],
               g_data = [PNAME_BONE_MATRICES \<mapsto> UniformArray 0 None,
                         PNAME_NUM_BONES \<mapsto> IntValue 0] \<rparr>) \<rparr>"

text \<open>
  The scene with a second target, node 5, which carries no surface; the software
  component after a frame tick in that scene, and after node 0 has then been attached.
\<close>

definition demoWorldTwoTargets :: "real World" where
  "demoWorldTwoTargets = demoWorld\<lparr> w_targets := [0, 5] \<rparr>"

definition demoTicked :: "real Skinning" where
  "demoTicked = demoInitialized\<lparr> m_targetStartTime := [0 \<mapsto> 0, 5 \<mapsto> 0] \<rparr>"

definition demoTickedAttached :: "real Skinning" where
  "demoTickedAttached =
     demoInitialized
       \<lparr> m_targetGeometry := [0 \<mapsto> 0], m_targetStartTime := [5 \<mapsto> 0, 0 \<mapsto> 7],
         m_targetInputPositions := [0 \<mapsto> vb_data demoBuffer],
         m_frameBeginSlot := Some 0 \<rparr>"

text \<open>
  Two skins of one vertex: one whose vertex follows the three bones 2, 5 and 9 with the
  weights 0.5, 0.3 and 0.2, and one whose vertex follows the five bones 1 to 5 with the
  weight 0.2 each.
\<close>

definition threeBoneSkin :: "real Skin" where
  "threeBoneSkin =
     \<lparr> numVertices = 1, numBones = 10, numFrames = 0, duration = 1, maxNumVertexBones = 3,
       numVertexBones = (\<lambda>v. 3),
       vertexBoneId = (\<lambda>v j. [2, 5, 9] ! j),
       vertexBoneWeight = (\<lambda>v j. [5 / 10, 3 / 10, 2 / 10] ! j),
       matrices = (\<lambda>f. []),
       getFrameId = (\<lambda>t. 0) \<rparr>"

definition fiveBoneSkin :: "real Skin" where
  "fiveBoneSkin =
     \<lparr> numVertices = 1, numBones = 10, numFrames = 0, duration = 1, maxNumVertexBones = 5,
       numVertexBones = (\<lambda>v. 5),
       vertexBoneId = (\<lambda>v j. j + 1),
       vertexBoneWeight = (\<lambda>v j. 2 / 10),
       matrices = (\<lambda>f. []),
       getFrameId = (\<lambda>t. 0) \<rparr>"

section \<open>Properties\<close>

subsection \<open>Auxiliary facts about the loops\<close>

declare boneLoop.simps [simp del] vertexLoop.simps [simp del] fillLoop.simps [simp del] packLoop.simps [simp del]

lemma u32_id: "n < 2 ^ 32 \<Longrightarrow> u32 n = n"
  by (simp add: u32_def)

lemma boneContribution_ok:
  assumes "boneId < nb" "16 * nb \<le> length bm" "length bm \<le> 2 ^ 32"
  shows "boneContribution dd bm p1 boneId w acc = Inr (accTerm dd bm p1 acc (boneId, w))"
proof -
  have b: "boneId * 16 + 16 \<le> length bm" using assms by simp
  then have "boneId * 16 < 2 ^ 32" using assms by simp
  then have u: "u32 (boneId * 16) = boneId * 16" by (rule u32_id)
  show ?thesis using b
    by (cases p1; cases acc) (simp add: boneContribution_def accTerm_def rowTerm_def push_bit_eq_mult u Let_def add.commute[where ?'a = nat])
qed

lemma boneLoop_ok:
  assumes "\<forall>j<n. vertexBoneId sk v j < nb" "16 * nb \<le> length bm" "length bm \<le> 2 ^ 32"
  shows "boneLoop sk dd bm p1 v n j acc
         = Inr (foldl (accTerm dd bm p1) acc (map (vertexBoneData sk v) [j..<n]))"
  using assms
proof (induction sk dd bm p1 v n j acc rule: boneLoop.induct)
  case (1 sk dd bm p1 v n j acc)
  show ?case
  proof (cases "j < n")
    case True
    obtain b w where bw: "vertexBoneData sk v j = (b, w)" by (cases "vertexBoneData sk v j")
    then have "b = vertexBoneId sk v j" by (simp add: vertexBoneData_def)
    then have "b < nb" using "1.prems"(1) True by simp
    then have bc: "boneContribution dd bm p1 b w acc = Inr (accTerm dd bm p1 acc (b, w))"
      using "1.prems" by (intro boneContribution_ok) simp_all
    have ih: "boneLoop sk dd bm p1 v n (j + 1) (accTerm dd bm p1 acc (b, w))
       = Inr (foldl (accTerm dd bm p1) (accTerm dd bm p1 acc (b, w)) (map (vertexBoneData sk v) [j + 1..<n]))"
      using "1.IH"[OF True bw[symmetric] bc] "1.prems" by simp
    have up: "[j..<n] = j # [j+1..<n]" using True by (simp add: upt_conv_Cons)
    show ?thesis using ih
      by (subst boneLoop.simps) (simp add: True bw bc up del: upt_Suc)
  next
    case False
    then show ?thesis by (subst boneLoop.simps) simp
  qed
qed

lemma foldl_accTerm:
  "foldl (accTerm dd bm p1) (a, b, c) ps =
     (foldl (\<lambda>acc bw. acc + rowTerm dd bm 0 p1 bw) a ps,
      foldl (\<lambda>acc bw. acc + rowTerm dd bm 1 p1 bw) b ps,
      foldl (\<lambda>acc bw. acc + rowTerm dd bm 2 p1 bw) c ps)"
  by (induction ps arbitrary: a b c) (simp_all add: accTerm_def)

lemma boneLoop_weightedSum:
  assumes "\<forall>j<numVertexBones sk v. vertexBoneId sk v j < nb" "16 * nb \<le> length bm" "length bm \<le> 2 ^ 32"
  shows "boneLoop sk dd bm p1 v (numVertexBones sk v) 0 (0, 0, 0)
         = Inr (weightedSum dd bm 0 p1 (bonePairs sk v), weightedSum dd bm 1 p1 (bonePairs sk v),
                weightedSum dd bm 2 p1 (bonePairs sk v))"
  by (simp add: boneLoop_ok[OF assms] foldl_accTerm weightedSum_def bonePairs_def)

lemma row_bound:
  fixes vs :: nat
  assumes "off + 3 \<le> vs" "v < nv" "nv * vs \<le> n"
  shows "off + v * vs + 3 \<le> n"
proof -
  have "Suc v * vs \<le> nv * vs" using assms(2) by (intro mult_le_mono1) simp
  then show ?thesis using assms by simp
qed

lemma row_later:
  fixes vs :: nat
  assumes "off + 3 \<le> vs" "vId < v"
  shows "off + vId * vs + 3 \<le> off + v * vs"
proof -
  have "Suc vId * vs \<le> v * vs" using assms(2) by (intro mult_le_mono1) simp
  then show ?thesis using assms by simp
qed

lemma vertexLoop_result:
  assumes vs: "off + 3 \<le> vs" and fits: "nv * vs \<le> length out"
    and len: "length out < 2 ^ 32" and inp: "length inp = length out"
    and bones: "\<forall>v<nv. \<forall>j<numVertexBones sk v. vertexBoneId sk v j < nb"
    and bm: "16 * nb \<le> length bm" "length bm \<le> 2 ^ 32"
    and idx: "vId < nv \<longrightarrow> idx = off + vId * vs"
  shows "\<exists>out'. vertexLoop sk dd inp bm vs nv vId idx out = Inr out' \<and> length out' = length out
     \<and> (\<forall>v r. vId \<le> v \<and> v < nv \<and> r < 3 \<longrightarrow>
           out' ! (off + v * vs + r) = weightedSum dd bm r (bindPose inp off vs v) (bonePairs sk v))
     \<and> (\<forall>i. (\<forall>v r. vId \<le> v \<and> v < nv \<and> r < 3 \<longrightarrow> i \<noteq> off + v * vs + r) \<longrightarrow> out' ! i = out ! i)"
  using fits len inp idx
proof (induction "nv - vId" arbitrary: vId idx out)
  case 0
  then have "\<not> vId < nv" by simp
  then show ?case by (subst vertexLoop.simps) auto
next
  case (Suc k)
  then have lt: "vId < nv" by simp
  then have idx: "idx = off + vId * vs" using Suc.prems by simp
  have b3: "idx + 3 \<le> length out" unfolding idx using row_bound[OF vs lt Suc.prems(1)] .
  have u1: "u32 (idx + 1) = idx + 1" and u2: "u32 (idx + 2) = idx + 2"
    using b3 Suc.prems(2) by (simp_all add: u32_id)
  let ?p1 = "bindPose inp off vs vId"
  let ?W = "\<lambda>r. weightedSum dd bm r ?p1 (bonePairs sk vId)"
  have bl: "boneLoop sk dd bm (inp ! idx, inp ! (idx + 1), inp ! (idx + 2)) vId (numVertexBones sk vId) 0 (0, 0, 0)
      = Inr (?W 0, ?W 1, ?W 2)"
    using boneLoop_weightedSum[of sk vId nb bm dd ?p1] bones lt bm
    by (simp add: bindPose_def idx)
  let ?out1 = "out[idx := ?W 0, idx + 1 := ?W 1, idx + 2 := ?W 2]"
  have step: "vertexLoop sk dd inp bm vs nv vId idx out
      = vertexLoop sk dd inp bm vs nv (vId + 1) (u32 (idx + vs)) ?out1"
    using b3 lt Suc.prems(3) u1 u2 bl
    by (subst vertexLoop.simps) simp
  have nidx: "vId + 1 < nv \<longrightarrow> u32 (idx + vs) = off + (vId + 1) * vs"
  proof
    assume n: "vId + 1 < nv"
    have "off + (vId + 1) * vs + 3 \<le> length out" using row_bound[OF vs n Suc.prems(1)] .
    then have "idx + vs < 2 ^ 32" using Suc.prems(2) by (simp add: idx)
    then show "u32 (idx + vs) = off + (vId + 1) * vs" by (simp add: u32_id idx)
  qed
  have k: "k = nv - (vId + 1)" using Suc.hyps(2) by simp
  obtain out' where r: "vertexLoop sk dd inp bm vs nv (vId + 1) (u32 (idx + vs)) ?out1 = Inr out'"
      "length out' = length ?out1"
      "\<forall>v r. vId + 1 \<le> v \<and> v < nv \<and> r < 3 \<longrightarrow>
           out' ! (off + v * vs + r) = weightedSum dd bm r (bindPose inp off vs v) (bonePairs sk v)"
      "\<forall>i. (\<forall>v r. vId + 1 \<le> v \<and> v < nv \<and> r < 3 \<longrightarrow> i \<noteq> off + v * vs + r) \<longrightarrow> out' ! i = ?out1 ! i"
    using Suc.hyps(1)[OF k, of ?out1 "u32 (idx + vs)"] Suc.prems nidx by auto
  have here: "out' ! (idx + r) = ?W r" if r3: "r < 3" for r
  proof -
    have "\<forall>v r'. vId + 1 \<le> v \<and> v < nv \<and> r' < 3 \<longrightarrow> idx + r \<noteq> off + v * vs + r'"
    proof (intro allI impI)
      fix v r' :: nat assume a: "vId + 1 \<le> v \<and> v < nv \<and> r' < 3"
      then have "off + vId * vs + 3 \<le> off + v * vs" by (intro row_later[OF vs]) simp
      then show "idx + r \<noteq> off + v * vs + r'" using r3 by (simp add: idx)
    qed
    then have "out' ! (idx + r) = ?out1 ! (idx + r)" using r(4) by blast
    also have "\<dots> = ?W r"
    proof -
      consider "r = 0" | "r = 1" | "r = 2" using r3 by linarith
      then show ?thesis using b3 by cases simp_all
    qed
    finally show ?thesis .
  qed
  have p1: "\<forall>v r. vId \<le> v \<and> v < nv \<and> r < 3 \<longrightarrow>
           out' ! (off + v * vs + r) = weightedSum dd bm r (bindPose inp off vs v) (bonePairs sk v)"
  proof (intro allI impI)
    fix v r :: nat assume a: "vId \<le> v \<and> v < nv \<and> r < 3"
    show "out' ! (off + v * vs + r) = weightedSum dd bm r (bindPose inp off vs v) (bonePairs sk v)"
    proof (cases "v = vId")
      case True
      then show ?thesis using here[of r] a by (simp add: idx)
    next
      case False
      then show ?thesis using r(3) a by simp
    qed
  qed
  have p2: "\<forall>i. (\<forall>v r. vId \<le> v \<and> v < nv \<and> r < 3 \<longrightarrow> i \<noteq> off + v * vs + r) \<longrightarrow> out' ! i = out ! i"
  proof (intro allI impI)
    fix i assume a: "\<forall>v r. vId \<le> v \<and> v < nv \<and> r < 3 \<longrightarrow> i \<noteq> off + v * vs + r"
    then have "out' ! i = ?out1 ! i" using r(4) by simp
    moreover have "i \<noteq> idx + 0" "i \<noteq> idx + 1" "i \<noteq> idx + 2"
      using a lt unfolding idx by (metis le_refl zero_less_numeral, metis le_refl one_less_numeral_iff semiring_norm(77), metis le_refl lessI numeral_3_eq_3 numeral_2_eq_2)
    ultimately show "out' ! i = out ! i" by simp
  qed
  show ?case unfolding step using r(1) r(2) p1 p2 by simp
qed


lemma performSoftwareSkinningAttr_result:
  assumes ok: "skinningInputsOk sk vb off inp bm"
  shows "\<exists>out'. performSoftwareSkinningAttr sk (Some (name, width, off)) vb inp bm dd
             = Inr (upload (vb\<lparr>vb_data := out'\<rparr>))
     \<and> length out' = length (vb_data vb)
     \<and> (\<forall>v r. v < length (vb_data vb) div vb_vertexSize vb \<and> r < 3 \<longrightarrow>
           out' ! (off + v * vb_vertexSize vb + r)
             = weightedSum dd bm r (bindPose inp off (vb_vertexSize vb) v) (bonePairs sk v))
     \<and> (\<forall>i. (\<forall>v r. v < length (vb_data vb) div vb_vertexSize vb \<and> r < 3
                  \<longrightarrow> i \<noteq> off + v * vb_vertexSize vb + r) \<longrightarrow> out' ! i = vb_data vb ! i)"
proof -
  let ?vs = "vb_vertexSize vb" and ?out = "vb_data vb"
  let ?nv = "length ?out div ?vs"
  have vs: "off + 3 \<le> ?vs" and len: "length ?out < 2 ^ 32" and inp: "length inp = length ?out"
    and bm: "16 * numBones sk \<le> length bm" "length bm \<le> 2 ^ 32"
    and bones: "\<forall>v<?nv. \<forall>j<numVertexBones sk v. vertexBoneId sk v j < numBones sk"
    using ok by (simp_all add: skinningInputsOk_def)
  have pos: "?vs \<noteq> 0" using vs by simp
  have fits: "?nv * ?vs \<le> length ?out" by simp
  have nv: "u32 ?nv = ?nv"
    by (rule u32_id) (rule le_less_trans[OF div_le_dividend len])
  obtain out' where r: "vertexLoop sk dd inp bm ?vs ?nv 0 off ?out = Inr out'"
     "length out' = length ?out"
     "\<forall>v r. 0 \<le> v \<and> v < ?nv \<and> r < 3 \<longrightarrow>
           out' ! (off + v * ?vs + r) = weightedSum dd bm r (bindPose inp off ?vs v) (bonePairs sk v)"
     "\<forall>i. (\<forall>v r. 0 \<le> v \<and> v < ?nv \<and> r < 3 \<longrightarrow> i \<noteq> off + v * ?vs + r) \<longrightarrow> out' ! i = ?out ! i"
    using vertexLoop_result[OF vs fits len inp bones bm, of 0 off dd] by auto
  have "performSoftwareSkinningAttr sk (Some (name, width, off)) vb inp bm dd
          = Inr (upload (vb\<lparr>vb_data := out'\<rparr>))"
    using pos by (simp add: performSoftwareSkinningAttr_def Let_def nv r(1))
  then show ?thesis using r(2,3,4) by auto
qed


lemma skinningInputsOk_cong:
  "length (vb_data vb') = length (vb_data vb) \<Longrightarrow> vb_vertexSize vb' = vb_vertexSize vb
   \<Longrightarrow> skinningInputsOk sk vb' off inp bm = skinningInputsOk sk vb off inp bm"
  by (simp add: skinningInputsOk_def)

lemma vertexBuffer_data_update:
  assumes "vb_attributes vb' = vb_attributes (w_vertexBuffers w r)"
  shows "vertexBuffer (w\<lparr>w_vertexBuffers := (w_vertexBuffers w)(r := vb')\<rparr>) g name
         = vertexBuffer w g name"
proof -
  have "(\<lambda>x. hasAttribute (((w_vertexBuffers w)(r := vb')) x) name)
        = (\<lambda>x. hasAttribute (w_vertexBuffers w x) name)"
    using assms by (auto simp: hasAttribute_def fun_eq_iff)
  then show ?thesis by (simp add: vertexBuffer_def)
qed

lemma rows_disjoint:
  fixes vs :: nat
  assumes "off + 3 \<le> vs" "noff + 3 \<le> vs" "off + 3 \<le> noff \<or> noff + 3 \<le> off" "r < 3" "r' < 3"
  shows "off + v * vs + r \<noteq> noff + v' * vs + r'"
proof (cases v v' rule: linorder_cases)
  case less
  then have "off + v * vs + 3 \<le> off + v' * vs" using assms(1) by (intro row_later)
  then have "off + v * vs + 3 \<le> v' * vs + vs" using assms(1) by simp
  moreover have "Suc v * vs \<le> v' * vs" using less by (intro mult_le_mono1) simp
  ultimately show ?thesis using assms by simp
next
  case equal
  then show ?thesis using assms by auto
next
  case greater
  then have "Suc v' * vs \<le> v * vs" by (intro mult_le_mono1) simp
  then show ?thesis using assms by simp
qed

lemma performSoftwareSkinning_positions:
  fixes st :: "('a::{zero,plus,times}) Skinning"
  assumes sk: "m_skin st = Some sk"
    and reg: "m_targetGeometry st target = Some gr"
    and buf: "vertexBuffer w (w_geometries w gr) ATTRNAME_POSITION = Some xyz"
    and attr: "findAttribute (vb_attributes (w_vertexBuffers w xyz)) ATTRNAME_POSITION
                 = Some (name, width, off)"
    and snap: "m_targetInputPositions st target = Some snapshot"
    and ok: "skinningInputsOk sk (w_vertexBuffers w xyz) off snapshot bm"
    and nrm: "normalPassOk st w target gr xyz off sk bm"
  shows "\<exists>w'. performSoftwareSkinning st w target bm = Inr (st, w')
     \<and> length (vb_data (w_vertexBuffers w' xyz)) = length (vb_data (w_vertexBuffers w xyz))
     \<and> (\<forall>v r. v < length (vb_data (w_vertexBuffers w xyz)) div vb_vertexSize (w_vertexBuffers w xyz)
               \<and> r < 3 \<longrightarrow>
           vb_data (w_vertexBuffers w' xyz) ! (off + v * vb_vertexSize (w_vertexBuffers w xyz) + r)
             = weightedSum False bm r
                 (bindPose snapshot off (vb_vertexSize (w_vertexBuffers w xyz)) v) (bonePairs sk v))"
proof -
  let ?vb = "w_vertexBuffers w xyz"
  let ?vs = "vb_vertexSize ?vb"
  let ?nv = "length (vb_data ?vb) div ?vs"
  obtain out1 where p: "performSoftwareSkinningAttr sk (Some (name, width, off)) ?vb snapshot bm False
             = Inr (upload (?vb\<lparr>vb_data := out1\<rparr>))"
     "length out1 = length (vb_data ?vb)"
     "\<forall>v r. v < ?nv \<and> r < 3 \<longrightarrow>
           out1 ! (off + v * ?vs + r) = weightedSum False bm r (bindPose snapshot off ?vs v) (bonePairs sk v)"
    using performSoftwareSkinningAttr_result[OF ok, of name width False] by blast
  let ?vb1 = "upload (?vb\<lparr>vb_data := out1\<rparr>)"
  let ?w1 = "w\<lparr>w_vertexBuffers := (w_vertexBuffers w)(xyz := ?vb1)\<rparr>"
  have st1: "st\<lparr>m_targetInputPositions := (m_targetInputPositions st)(target \<mapsto> snapshot)\<rparr> = st"
    using snap by (simp add: fun_upd_idem)
  have vbeq: "vertexBuffer ?w1 (w_geometries w gr) nm = vertexBuffer w (w_geometries w gr) nm" for nm
    by (rule vertexBuffer_data_update) (simp add: upload_def)
  have geo: "w_geometries ?w1 = w_geometries w" by simp
  show ?thesis
  proof (cases "vertexBuffer w (w_geometries w gr) ATTRNAME_NORMAL")
    case None
    then have "performSoftwareSkinning st w target bm = Inr (st, ?w1)"
      using reg buf attr snap sk p(1)
      by (simp add: performSoftwareSkinning_def Let_def st1 hasVertexAttribute_def vbeq)
    then show ?thesis using p(2,3) by (auto simp: upload_def)
  next
    case (Some nb)
    show ?thesis
    proof (cases "m_targetInputNormals st target")
      case None
      then have "performSoftwareSkinning st w target bm = Inr (st, ?w1)"
        using reg buf attr snap sk p(1)
        by (simp add: performSoftwareSkinning_def Let_def st1 hasVertexAttribute_def vbeq)
      then show ?thesis using p(2,3) by (auto simp: upload_def)
    next
      case nsnap: (Some inputNormals)
      obtain nname nwidth noff where nattr:
         "findAttribute (vb_attributes (w_vertexBuffers w nb)) ATTRNAME_NORMAL = Some (nname, nwidth, noff)"
         and nok: "skinningInputsOk sk (w_vertexBuffers w nb) noff inputNormals bm"
         and dis: "nb \<noteq> xyz \<or> off + 3 \<le> noff \<or> noff + 3 \<le> off"
        using nrm Some nsnap by (auto simp: normalPassOk_def split: option.splits)
      let ?nvb = "w_vertexBuffers ?w1 nb"
      have nattr1: "findAttribute (vb_attributes ?nvb) ATTRNAME_NORMAL = Some (nname, nwidth, noff)"
        using nattr by (cases "nb = xyz") (simp_all add: upload_def)
      have nok1: "skinningInputsOk sk ?nvb noff inputNormals bm"
        using nok p(2) skinningInputsOk_cong[of ?vb1 ?vb sk noff inputNormals bm]
        by (cases "nb = xyz") (simp_all add: upload_def)
      obtain out2 where q: "performSoftwareSkinningAttr sk (Some (nname, nwidth, noff)) ?nvb inputNormals bm True
             = Inr (upload (?nvb\<lparr>vb_data := out2\<rparr>))"
         "length out2 = length (vb_data ?nvb)"
         "\<forall>i. (\<forall>v r. v < length (vb_data ?nvb) div vb_vertexSize ?nvb \<and> r < 3
                  \<longrightarrow> i \<noteq> noff + v * vb_vertexSize ?nvb + r) \<longrightarrow> out2 ! i = vb_data ?nvb ! i"
        using performSoftwareSkinningAttr_result[OF nok1, of nname nwidth True] by blast
      let ?w2 = "?w1\<lparr>w_vertexBuffers := (w_vertexBuffers ?w1)(nb := upload (?nvb\<lparr>vb_data := out2\<rparr>))\<rparr>"
      have run: "performSoftwareSkinning st w target bm = Inr (st, ?w2)"
        using reg buf attr snap sk p(1) Some nsnap nattr1 q(1)
        by (simp add: performSoftwareSkinning_def Let_def st1 hasVertexAttribute_def vbeq)
      show ?thesis
      proof (cases "nb = xyz")
        case False
        then have "w_vertexBuffers ?w2 xyz = ?vb1" by simp
        then show ?thesis using run p(2,3) by (auto simp: upload_def)
      next
        case True
        have vs1: "vb_vertexSize ?nvb = ?vs" and d1: "vb_data ?nvb = out1"
          using True by (simp_all add: upload_def)
        have d2: "vb_data (w_vertexBuffers ?w2 xyz) = out2" using True by (simp add: upload_def)
        have o3: "off + 3 \<le> ?vs" using ok by (simp add: skinningInputsOk_def)
        have n3: "noff + 3 \<le> ?vs" using nok True by (simp add: skinningInputsOk_def)
        have d: "off + 3 \<le> noff \<or> noff + 3 \<le> off" using dis True by simp
        have keep: "out2 ! (off + v * ?vs + r) = out1 ! (off + v * ?vs + r)" if "r < 3" for v r
        proof -
          have "\<forall>v' r'. v' < length (vb_data ?nvb) div vb_vertexSize ?nvb \<and> r' < 3
                  \<longrightarrow> off + v * ?vs + r \<noteq> noff + v' * vb_vertexSize ?nvb + r'"
            unfolding vs1 using rows_disjoint[OF o3 n3 d that] by blast
          then show ?thesis using q(3) d1 by simp
        qed
        show ?thesis using run p(2,3) q(2) keep d1 d2 by auto
      qed
    qed
  qed
qed


lemma quarter_row: "drop_bit 2 boneVertexSize = 4"
  and half_row: "drop_bit 1 boneVertexSize = 8" "drop_bit (Suc 0) boneVertexSize = 8"
  by (simp_all add: boneVertexSize_def drop_bit_eq_div)

lemma fillLoop_result:
  assumes "index + 4 \<le> length vd" "length vd < 2 ^ 32"
  shows "\<exists>vd'. fillLoop val n index j vd = Inr vd' \<and> length vd' = length vd
     \<and> (\<forall>i. vd' ! i = (if index + j \<le> i \<and> i < index + min n 4 then val (i - index) else vd ! i))"
  using assms
proof (induction "4 - j" arbitrary: j vd)
  case 0
  then have "\<not> j < 4" by simp
  then have "fillLoop val n index j vd = Inr vd" by (subst fillLoop.simps) (simp add: quarter_row)
  moreover have "\<not> (index + j \<le> i \<and> i < index + min n 4)" for i using 0(1) by arith
  ultimately show ?case by auto
next
  case (Suc k)
  then have j4: "j < 4" by simp
  show ?case
  proof (cases "j < n")
    case False
    then have "fillLoop val n index j vd = Inr vd" by (subst fillLoop.simps) simp
    moreover have "\<not> (index + j \<le> i \<and> i < index + min n 4)" for i using False by arith
    ultimately show ?thesis by auto
  next
    case True
    have u: "u32 (index + j) = index + j" using j4 Suc.prems by (intro u32_id) simp
    let ?vd1 = "vd[index + j := val j]"
    have step: "fillLoop val n index j vd = fillLoop val n index (j + 1) ?vd1"
      using True j4 Suc.prems by (subst fillLoop.simps) (simp add: quarter_row u)
    have k: "k = 4 - (j + 1)" using Suc.hyps(2) by simp
    obtain vd' where r: "fillLoop val n index (j + 1) ?vd1 = Inr vd'" "length vd' = length ?vd1"
      "\<forall>i. vd' ! i = (if index + (j + 1) \<le> i \<and> i < index + min n 4 then val (i - index) else ?vd1 ! i)"
      using Suc.hyps(1)[OF k, of ?vd1] Suc.prems by auto
    have "vd' ! i = (if index + j \<le> i \<and> i < index + min n 4 then val (i - index) else vd ! i)" for i
    proof (cases "i = index + j")
      case True
      then show ?thesis using r(3) \<open>j < n\<close> j4 Suc.prems by simp
    next
      case False
      then show ?thesis using r(3) by auto
    qed
    then show ?thesis unfolding step using r(1,2) by simp
  qed
qed

lemma packLoop_result:
  assumes "nv * 16 \<le> length vd" "length vd < 2 ^ 32" "vId < nv \<longrightarrow> index = vId * 16"
  shows "\<exists>vd'. packLoop sk nv vId index vd = Inr vd' \<and> length vd' = length vd
     \<and> (\<forall>v s. vId \<le> v \<and> v < nv \<and> s < 16 \<longrightarrow>
           vd' ! (v * 16 + s) = packedSlot sk v s (vd ! (v * 16 + s)))
     \<and> (\<forall>i. i < vId * 16 \<or> nv * 16 \<le> i \<longrightarrow> vd' ! i = vd ! i)"
  using assms
proof (induction "nv - vId" arbitrary: vId index vd)
  case 0
  then have "\<not> vId < nv" by simp
  then show ?case by (subst packLoop.simps) auto
next
  case (Suc k)
  then have lt: "vId < nv" and idx: "index = vId * 16" by simp_all
  let ?n = "min (numVertexBones sk vId) 4"
  have row: "vId * 16 + 16 \<le> length vd" using lt Suc.prems(1) by simp
  obtain vd1 where a: "fillLoop (\<lambda>j. of_nat (vertexBoneId sk vId j)) (numVertexBones sk vId) index 0 vd = Inr vd1"
      "length vd1 = length vd"
      "\<forall>i. vd1 ! i = (if index + 0 \<le> i \<and> i < index + ?n
                       then of_nat (vertexBoneId sk vId (i - index)) else vd ! i)"
    using fillLoop_result[of index vd "\<lambda>j. of_nat (vertexBoneId sk vId j)" "numVertexBones sk vId" 0]
      row Suc.prems(2) idx by auto
  have u1: "u32 (index + 8) = index + 8" using row Suc.prems(2) idx by (intro u32_id) simp
  obtain vd2 where b: "fillLoop (\<lambda>j. vertexBoneWeight sk vId j) (numVertexBones sk vId) (index + 8) 0 vd1 = Inr vd2"
      "length vd2 = length vd"
      "\<forall>i. vd2 ! i = (if index + 8 + 0 \<le> i \<and> i < index + 8 + ?n
                       then vertexBoneWeight sk vId (i - (index + 8)) else vd1 ! i)"
    using fillLoop_result[of "index + 8" vd1 "\<lambda>j. vertexBoneWeight sk vId j" "numVertexBones sk vId" 0]
      row Suc.prems(2) idx a(2) by auto
  have step: "packLoop sk nv vId index vd = packLoop sk nv (vId + 1) (u32 (index + 8 + 8)) vd2"
    using lt a(1) b(1) by (subst packLoop.simps) (simp add: half_row u1 Let_def)
  have nidx: "vId + 1 < nv \<longrightarrow> u32 (index + 8 + 8) = (vId + 1) * 16"
    using row Suc.prems(2) idx by (simp add: u32_id)
  have k: "k = nv - (vId + 1)" using Suc.hyps(2) by simp
  obtain vd' where r: "packLoop sk nv (vId + 1) (u32 (index + 8 + 8)) vd2 = Inr vd'"
      "length vd' = length vd2"
      "\<forall>v s. vId + 1 \<le> v \<and> v < nv \<and> s < 16 \<longrightarrow>
           vd' ! (v * 16 + s) = packedSlot sk v s (vd2 ! (v * 16 + s))"
      "\<forall>i. i < (vId + 1) * 16 \<or> nv * 16 \<le> i \<longrightarrow> vd' ! i = vd2 ! i"
    using Suc.hyps(1)[OF k, of vd2 "u32 (index + 8 + 8)"] Suc.prems(1,2) b(2) nidx by auto
  have row2: "vd2 ! (vId * 16 + s) = packedSlot sk vId s (vd ! (vId * 16 + s))" if "s < 16" for s
    using a(3)[rule_format, of "vId * 16 + s"] b(3)[rule_format, of "vId * 16 + s"] that
    by (auto simp: packedSlot_def idx Let_def)
  have other: "vd2 ! i = vd ! i" if "i < vId * 16 \<or> (vId + 1) * 16 \<le> i" for i
    using a(3)[rule_format, of i] b(3)[rule_format, of i] that by (auto simp: idx)
  have p1: "vd' ! (v * 16 + s) = packedSlot sk v s (vd ! (v * 16 + s))"
    if "vId \<le> v" "v < nv" "s < 16" for v s
  proof (cases "v = vId")
    case True
    have "vd' ! (vId * 16 + s) = vd2 ! (vId * 16 + s)" using r(4) that(3) by simp
    then show ?thesis using row2[OF that(3)] True by simp
  next
    case False
    then have "(vId + 1) * 16 \<le> v * 16 + s" using that(1) by simp
    then have "vd2 ! (v * 16 + s) = vd ! (v * 16 + s)" using other by blast
    then show ?thesis using r(3) that False by simp
  qed
  have p2: "vd' ! i = vd ! i" if "i < vId * 16 \<or> nv * 16 \<le> i" for i
  proof -
    have "(vId + 1) * 16 \<le> nv * 16" using lt by simp
    then have "i < vId * 16 \<or> (vId + 1) * 16 \<le> i" using that by linarith
    moreover have "i < (vId + 1) * 16 \<or> nv * 16 \<le> i" using that by auto
    ultimately show ?thesis using r(4) other by metis
  qed
  show ?case unfolding step using r(1,2) b(2) p1 p2 by simp
qed

lemma createVertexBufferForBones_result:
  fixes sk :: "('a::semiring_1) Skin"
  assumes "maxNumVertexBones sk \<le> 8" "numVertices sk * 16 < 2 ^ 32"
  shows "\<exists>vb. createVertexBufferForBones sk = Inr vb
     \<and> length (vb_data vb) = numVertices sk * 16
     \<and> (\<forall>v s. v < numVertices sk \<and> s < 16 \<longrightarrow> vb_data vb ! (v * 16 + s) = packedSlot sk v s 0)"
proof -
  let ?vd = "replicate (numVertices sk * 16) (0::'a)"
  obtain vd' where r: "packLoop sk (numVertices sk) 0 0 ?vd = Inr vd'" "length vd' = length ?vd"
    "\<forall>v s. 0 \<le> v \<and> v < numVertices sk \<and> s < 16 \<longrightarrow>
           vd' ! (v * 16 + s) = packedSlot sk v s (?vd ! (v * 16 + s))"
    using packLoop_result[of "numVertices sk" ?vd 0 0 sk] assms(2) by auto
  have "vd' ! (v * 16 + s) = packedSlot sk v s 0" if "v < numVertices sk" "s < 16" for v s
  proof -
    have "v * 16 + s < numVertices sk * 16" using that by simp
    then show ?thesis using r(3) that by simp
  qed
  then show ?thesis using assms r(1,2)
    by (simp add: createVertexBufferForBones_def MAX_NUM_BONES_PER_VERTEX_def boneVertexSize_def u32_id)
qed

lemma attribute_row_mod:
  fixes vs :: nat
  assumes "off + 3 \<le> vs" "r < 3"
  shows "(off + v * vs + r) mod vs = off + r"
proof -
  have "off + v * vs + r = (off + r) + v * vs" by simp
  then have "(off + v * vs + r) mod vs = (off + r) mod vs"
    by (simp only: mod_mult_self1)
  then show ?thesis using assms by simp
qed

lemma pureTranslation_entries:
  fixes bm :: "('a::{zero,one}) list"
  assumes "pureTranslation bm b (tx, ty, tz)" "16 * b + 12 \<le> length bm" "k < 12"
  shows "bm ! (b * 16 + k) = [1, 0, 0, tx,  0, 1, 0, ty,  0, 0, 1, tz] ! k"
proof -
  have "take 12 (drop (16 * b) bm) ! k = bm ! (b * 16 + k)"
    using assms(2,3) by (simp add: mult.commute)
  then show ?thesis using assms(1) by (simp add: pureTranslation_def)
qed

subsection \<open>Facts about the small scene\<close>

lemma demo_pairs: "bonePairs demoSkin 0 = [(0, 1)]" "bonePairs demoSkin (Suc 0) = []"
  by (simp_all add: bonePairs_def demoSkin_def vertexBoneData_def)

lemma demo_matrices:
  "matrices demoSkin f = [1, 0, 0, 5,  0, 1, 0, 6,  0, 0, 1, 7,  0, 0, 0, 1]"
  by (simp add: demoSkin_def)

lemma demo_ok: "skinningInputsOk demoSkin demoBuffer 0 (vb_data demoBuffer) (matrices demoSkin 0)"
  by (simp add: skinningInputsOk_def demoSkin_def demoBuffer_def)

lemma demo_roots: "driverRoots demoWorldTwoScenes = [10, 11]" "driverRoots demoWorld = [9]"
  "driverRoots (demoWorld\<lparr>w_targets := []\<rparr>) = []"
  by (simp_all add: driverRoots_def nodeSet_where_def nodeSet_roots_def demoWorldTwoScenes_def
      demoWorld_def)

lemma demo_initialize:
  "initialize (Skinning_new (Some demoSkin) SOFTWARE (Some 0)) demoWorld
     = Inr (demoInitialized, demoWorld)"
  by (simp add: initialize_def Skinning_new_def demoInitialized_def)

lemma demo_vertexBuffer:
  "vertexBuffer demoWorld (w_geometries demoWorld 0) ATTRNAME_POSITION = Some 0"
  "vertexBuffer demoWorld (w_geometries demoWorld 0) ATTRNAME_NORMAL = None"
  by (simp_all add: vertexBuffer_def demoWorld_def demoBuffer_def hasAttribute_def
      ATTRNAME_NORMAL_def ATTRNAME_POSITION_def)

lemma demo_find:
  "findSceneManager st demoWorld = Inr (st\<lparr>m_frameBeginSlot := Some 0\<rparr>)"
  by (simp add: findSceneManager_def demo_roots setSceneManager_def) (simp add: demoWorld_def)

lemma demo_attach:
  "addedHandler demoInitialized demoWorld 7 0 t p = Inr (demoAttached, demoWorld)"
proof -
  have s: "w_surface demoWorld 0 = Some 0" "w_vertexBuffers demoWorld 0 = demoBuffer"
    by (simp_all add: demoWorld_def)
  have k: "m_skin demoInitialized = Some demoSkin" "m_method demoInitialized = SOFTWARE"
    by (simp_all add: demoInitialized_def Skinning_new_def)
  have d: "\<not> duration demoSkin < literal_1e_6f"
    "vb_numVertices demoBuffer = numVertices demoSkin"
    by (simp_all add: demoSkin_def demoBuffer_def literal_1e_6f_def)
  show ?thesis
    by (simp add: addedHandler_def demo_find s k d demo_vertexBuffer Let_def)
       (simp add: demoAttached_def demoInitialized_def Skinning_new_def)
qed

lemma demo_roots_more:
  "driverRoots demoWorldSkinned = [9]" "driverRoots demoWorldTwoTargets = [9]"
  by (simp_all add: driverRoots_def nodeSet_where_def nodeSet_roots_def demoWorldSkinned_def
      demoWorldTwoTargets_def demoWorld_def)

lemma demo_find_more:
  "findSceneManager st demoWorldSkinned = Inr (st\<lparr>m_frameBeginSlot := Some 0\<rparr>)"
  "findSceneManager st demoWorldTwoTargets = Inr (st\<lparr>m_frameBeginSlot := Some 0\<rparr>)"
  by (simp_all add: findSceneManager_def demo_roots_more setSceneManager_def)
     (simp_all add: demoWorldSkinned_def demoWorldTwoTargets_def demoWorld_def)

lemma demo_detach_other:
  "removedHandler demoAttached demoWorld 0 1 9 = Inr (demoAttached, demoWorld)"
proof -
  have k: "m_targetGeometry demoAttached 1 = None" "m_targetStartTime demoAttached 1 = None"
    "m_targetInputPositions demoAttached 1 = None" "m_targetInputNormals demoAttached 1 = None"
    "m_frameBeginSlot demoAttached = Some 0"
    by (simp_all add: demoAttached_def demoInitialized_def Skinning_new_def)
  have e: "demoAttached\<lparr>m_frameBeginSlot := Some 0\<rparr> = demoAttached"
    by (simp add: demoAttached_def)
  show ?thesis using k
    by (simp add: removedHandler_def demo_find e Let_def fun_upd_idem)
qed

lemma demo_hardware_attach:
  "addedHandler demoHardwareInitialized demoWorld 7 0 1 9
     = Inr (demoHardwareAttached, demoWorldSkinned)"
proof -
  have s: "w_surface demoWorld 0 = Some 0" "w_vertexBuffers demoWorld 0 = demoBuffer"
    by (simp_all add: demoWorld_def)
  have g: "w_geometries demoWorld 0 = \<lparr> g_vertexBuffers = [0], g_data = Map.empty \<rparr>"
    by (simp add: demoWorld_def)
  have k: "m_skin demoHardwareInitialized = Some demoSkin"
    "m_method demoHardwareInitialized = HARDWARE"
    "m_boneVertexBuffer demoHardwareInitialized = Some 1"
    by (simp_all add: demoHardwareInitialized_def demoHardware_def Skinning_new_def)
  have d: "\<not> duration demoSkin < literal_1e_6f"
    "vb_numVertices demoBuffer = numVertices demoSkin"
    by (simp_all add: demoSkin_def demoBuffer_def literal_1e_6f_def)
  show ?thesis
    by (simp add: addedHandler_def demo_find s k d demo_vertexBuffer Let_def)
       (simp add: demoHardwareAttached_def demoHardwareInitialized_def demoHardware_def
          Skinning_new_def demoWorldSkinned_def addVertexBuffer_def data_set_def g)
qed

lemma demo_hardware_detach_other:
  "removedHandler demoHardwareAttached demoWorldSkinned 0 1 9
     = Inr (demoHardwareAttached, demoWorldSkinned)"
proof -
  have k: "m_targetGeometry demoHardwareAttached 1 = None"
    "m_targetStartTime demoHardwareAttached 1 = None"
    "m_targetInputPositions demoHardwareAttached 1 = None"
    "m_targetInputNormals demoHardwareAttached 1 = None"
    by (simp_all add: demoHardwareAttached_def demoHardwareInitialized_def demoHardware_def
        Skinning_new_def)
  have e: "demoHardwareAttached\<lparr>m_frameBeginSlot := Some 0\<rparr> = demoHardwareAttached"
    by (simp add: demoHardwareAttached_def)
  show ?thesis using k
    by (simp add: removedHandler_def demo_find_more e Let_def fun_upd_idem)
qed

lemma demo_tick:
  "frameBeginHandler demoInitialized demoWorldTwoTargets 0 = Inr (demoTicked, demoWorldTwoTargets)"
proof -
  have k: "m_skin demoInitialized = Some demoSkin" "m_targetStartTime demoInitialized = Map.empty"
    "m_targetGeometry demoInitialized = Map.empty"
    by (simp_all add: demoInitialized_def Skinning_new_def)
  show ?thesis
    by (simp add: frameBeginHandler_def demoWorldTwoTargets_def k updateFrame_def Let_def)
       (simp add: demoTicked_def)
qed

lemma demo_tick_attach:
  "addedHandler demoTicked demoWorldTwoTargets 7 0 0 0
     = Inr (demoTickedAttached, demoWorldTwoTargets)"
proof -
  have s: "w_surface demoWorldTwoTargets 0 = Some 0"
    "w_vertexBuffers demoWorldTwoTargets 0 = demoBuffer"
    by (simp_all add: demoWorldTwoTargets_def demoWorld_def)
  have v: "vertexBuffer demoWorldTwoTargets (w_geometries demoWorldTwoTargets 0) ATTRNAME_POSITION
             = Some 0"
    "vertexBuffer demoWorldTwoTargets (w_geometries demoWorldTwoTargets 0) ATTRNAME_NORMAL = None"
    using demo_vertexBuffer by (simp_all add: vertexBuffer_def demoWorldTwoTargets_def)
  have k: "m_skin demoTicked = Some demoSkin" "m_method demoTicked = SOFTWARE"
    by (simp_all add: demoTicked_def demoInitialized_def Skinning_new_def)
  have d: "\<not> duration demoSkin < literal_1e_6f"
    "vb_numVertices demoBuffer = numVertices demoSkin"
    by (simp_all add: demoSkin_def demoBuffer_def literal_1e_6f_def)
  show ?thesis
    by (simp add: addedHandler_def demo_find_more s k d v Let_def)
       (simp add: demoTickedAttached_def demoTicked_def demoInitialized_def Skinning_new_def
          fun_eq_iff)
qed

subsection \<open>Auxiliary facts about the handlers\<close>

lemma findSceneManager_frame:
  assumes "findSceneManager st w = Inr st'"
  shows "st' = st\<lparr>m_frameBeginSlot := m_frameBeginSlot st'\<rparr>"
  using assms
  by (auto simp: findSceneManager_def Let_def setSceneManager_def split: if_splits option.splits)

lemma findSceneManager_fields:
  assumes "findSceneManager st w = Inr st'"
  shows "m_targetGeometry st' = m_targetGeometry st" "m_targetStartTime st' = m_targetStartTime st"
    "m_targetInputPositions st' = m_targetInputPositions st"
    "m_targetInputNormals st' = m_targetInputNormals st"
    "m_method st' = m_method st" "m_boneVertexBuffer st' = m_boneVertexBuffer st"
    "m_skin st' = m_skin st"
  by (subst findSceneManager_frame[OF assms], simp)+

lemma findSceneManager_again:
  assumes "findSceneManager st w = Inr sa" "driverRoots w' = driverRoots w"
  shows "\<exists>sb. findSceneManager st' w' = Inr sb"
  using assms by (auto simp: findSceneManager_def Let_def split: if_splits)

text \<open>What a successful \<open>addedHandler\<close> did: nothing but the lookup, or a registration.\<close>

lemma addedHandler_cases:
  fixes st :: "('a::linordered_field) Skinning"
  assumes "addedHandler st w now n t p = Inr (st1, w1)"
  shows "\<exists>sa. findSceneManager st w = Inr sa \<and> driverRoots w1 = driverRoots w \<and>
     ((st1 = sa \<and> w1 = w) \<or>
      (\<exists>gr xyz. w_surface w n = Some gr
         \<and> vertexBuffer w (w_geometries w gr) ATTRNAME_POSITION = Some xyz
         \<and> m_targetGeometry st1 = (m_targetGeometry sa)(n \<mapsto> gr)
         \<and> m_targetStartTime st1 = (m_targetStartTime sa)(n \<mapsto> now)
         \<and> m_targetInputPositions st1
             = (m_targetInputPositions sa)(n \<mapsto> vb_data (w_vertexBuffers w xyz))
         \<and> (m_targetInputNormals st1 = m_targetInputNormals sa
              \<or> (\<exists>d. m_targetInputNormals st1 = (m_targetInputNormals sa)(n \<mapsto> d)))
         \<and> m_method st1 = m_method sa \<and> m_boneVertexBuffer st1 = m_boneVertexBuffer sa
         \<and> (if m_method sa \<noteq> SOFTWARE then
               \<exists>bvb. m_boneVertexBuffer sa = Some bvb
                 \<and> w1 = w\<lparr>w_geometries := (w_geometries w)
                      (gr := data_set (data_set (addVertexBuffer (w_geometries w gr) bvb)
                               PNAME_BONE_MATRICES (UniformArray 0 None))
                               PNAME_NUM_BONES (IntValue 0))\<rparr>
             else w1 = w)))"
proof -
  obtain sa where sa: "findSceneManager st w = Inr sa"
    using assms by (auto simp: addedHandler_def split: sum.splits)
  show ?thesis
    using assms unfolding addedHandler_def sa
    by (auto simp: Let_def driverRoots_def nodeSet_roots_def
          split: option.splits if_splits)
qed

lemma initialize_tracking:
  assumes "initialize st w = Inr (st', w')"
  shows "m_targetGeometry st' = m_targetGeometry st" "m_targetStartTime st' = m_targetStartTime st"
    "m_targetInputPositions st' = m_targetInputPositions st"
    "m_targetInputNormals st' = m_targetInputNormals st"
  using assms
  by (auto simp: initialize_def Let_def split: option.splits if_splits sum.splits)

text \<open>
  A detach that names the registered node as its target undoes the attach: the four maps
  are what they were before, and for a method other than SOFTWARE the geometry has lost
  the bone vertex buffer and the two bindings.
\<close>

lemma detach_of_registered_key:
  fixes st :: "('a::linordered_field) Skinning"
  assumes add: "addedHandler st w now n t p = Inr (st1, w1)"
    and reg: "m_targetGeometry st1 n = Some gr"
    and fresh: "m_targetGeometry st n = None" "m_targetStartTime st n = None"
      "m_targetInputPositions st n = None" "m_targetInputNormals st n = None"
  shows "\<exists>st2 w2. removedHandler st1 w1 n' n p' = Inr (st2, w2)
     \<and> w_surface w n = Some gr
     \<and> m_targetGeometry st2 = m_targetGeometry st
     \<and> m_targetStartTime st2 = m_targetStartTime st
     \<and> m_targetInputPositions st2 = m_targetInputPositions st
     \<and> m_targetInputNormals st2 = m_targetInputNormals st
     \<and> (m_method st \<noteq> SOFTWARE \<longrightarrow>
          (\<exists>bvb. m_boneVertexBuffer st = Some bvb
             \<and> bvb \<in> set (g_vertexBuffers (w_geometries w1 gr))
             \<and> g_data (w_geometries w1 gr) PNAME_BONE_MATRICES = Some (UniformArray 0 None)
             \<and> g_data (w_geometries w1 gr) PNAME_NUM_BONES = Some (IntValue 0)
             \<and> bvb \<notin> set (g_vertexBuffers (w_geometries w2 gr))
             \<and> g_data (w_geometries w2 gr) PNAME_BONE_MATRICES = None
             \<and> g_data (w_geometries w2 gr) PNAME_NUM_BONES = None))
     \<and> (m_method st = SOFTWARE \<longrightarrow> w2 = w)"
proof -
  obtain sa where sa: "findSceneManager st w = Inr sa" and roots: "driverRoots w1 = driverRoots w"
    and cases: "(st1 = sa \<and> w1 = w) \<or>
      (\<exists>gr xyz. w_surface w n = Some gr
         \<and> vertexBuffer w (w_geometries w gr) ATTRNAME_POSITION = Some xyz
         \<and> m_targetGeometry st1 = (m_targetGeometry sa)(n \<mapsto> gr)
         \<and> m_targetStartTime st1 = (m_targetStartTime sa)(n \<mapsto> now)
         \<and> m_targetInputPositions st1
             = (m_targetInputPositions sa)(n \<mapsto> vb_data (w_vertexBuffers w xyz))
         \<and> (m_targetInputNormals st1 = m_targetInputNormals sa
              \<or> (\<exists>d. m_targetInputNormals st1 = (m_targetInputNormals sa)(n \<mapsto> d)))
         \<and> m_method st1 = m_method sa \<and> m_boneVertexBuffer st1 = m_boneVertexBuffer sa
         \<and> (if m_method sa \<noteq> SOFTWARE then
               \<exists>bvb. m_boneVertexBuffer sa = Some bvb
                 \<and> w1 = w\<lparr>w_geometries := (w_geometries w)
                      (gr := data_set (data_set (addVertexBuffer (w_geometries w gr) bvb)
                               PNAME_BONE_MATRICES (UniformArray 0 None))
                               PNAME_NUM_BONES (IntValue 0))\<rparr>
             else w1 = w))"
    using addedHandler_cases[OF add] by blast
  note fa = findSceneManager_fields[OF sa]
  have "\<not> (st1 = sa \<and> w1 = w)" using reg fresh(1) fa(1) by auto
  then obtain gr' xyz where
        surf': "w_surface w n = Some gr'"
    and g1': "m_targetGeometry st1 = (m_targetGeometry sa)(n \<mapsto> gr')"
    and t1: "m_targetStartTime st1 = (m_targetStartTime sa)(n \<mapsto> now)"
    and p1: "m_targetInputPositions st1
             = (m_targetInputPositions sa)(n \<mapsto> vb_data (w_vertexBuffers w xyz))"
    and n1: "m_targetInputNormals st1 = m_targetInputNormals sa
              \<or> (\<exists>d. m_targetInputNormals st1 = (m_targetInputNormals sa)(n \<mapsto> d))"
    and m1: "m_method st1 = m_method sa" and b1: "m_boneVertexBuffer st1 = m_boneVertexBuffer sa"
    and w1'': "if m_method sa \<noteq> SOFTWARE then
               \<exists>bvb. m_boneVertexBuffer sa = Some bvb
                 \<and> w1 = w\<lparr>w_geometries := (w_geometries w)
                      (gr' := data_set (data_set (addVertexBuffer (w_geometries w gr') bvb)
                               PNAME_BONE_MATRICES (UniformArray 0 None))
                               PNAME_NUM_BONES (IntValue 0))\<rparr>
             else w1 = w"
    using cases by blast
  have "gr' = gr" using reg g1' by simp
  note surf = surf'[unfolded this] and g1 = g1'[unfolded this] and w1 = w1''[unfolded this]
  obtain sb where sb: "findSceneManager st1 w1 = Inr sb"
    using findSceneManager_again[OF sa roots] by blast
  note fb = findSceneManager_fields[OF sb]
  have names: "PNAME_BONE_MATRICES \<noteq> PNAME_NUM_BONES"
    by (simp add: PNAME_BONE_MATRICES_def PNAME_NUM_BONES_def)
  have eG: "(m_targetGeometry sb)(n := None) = m_targetGeometry st"
    using fresh(1) by (simp add: fb g1 fa fun_upd_idem)
  have eT: "(m_targetStartTime sb)(n := None) = m_targetStartTime st"
    using fresh(2) by (simp add: fb t1 fa fun_upd_idem)
  have eP: "(m_targetInputPositions sb)(n := None) = m_targetInputPositions st"
    using fresh(3) by (simp add: fb p1 fa fun_upd_idem)
  have eN: "(m_targetInputNormals sb)(n := None) = m_targetInputNormals st"
    using fresh(4) n1 by (auto simp: fb fa fun_upd_idem)
  have gsb: "m_targetGeometry sb n = Some gr" by (simp add: fb g1)
  show ?thesis
  proof (cases "m_method st = SOFTWARE")
    case True
    then have "w1 = w" using w1 fa(5) by simp
    moreover have "removedHandler st1 w1 n' n p'
        = Inr (sb\<lparr>m_targetGeometry := (m_targetGeometry sb)(n := None),
                 m_targetStartTime := (m_targetStartTime sb)(n := None),
                 m_targetInputPositions := (m_targetInputPositions sb)(n := None),
                 m_targetInputNormals := (m_targetInputNormals sb)(n := None)\<rparr>, w1)"
      using True gsb by (simp add: removedHandler_def sb Let_def fb m1 fa)
    ultimately show ?thesis using True surf eG eT eP eN by simp
  next
    case False
    then obtain bvb where bvb: "m_boneVertexBuffer st = Some bvb"
      and w1': "w1 = w\<lparr>w_geometries := (w_geometries w)
                      (gr := data_set (data_set (addVertexBuffer (w_geometries w gr) bvb)
                               PNAME_BONE_MATRICES (UniformArray 0 None))
                               PNAME_NUM_BONES (IntValue 0))\<rparr>"
      using w1 fa(5,6) by auto
    let ?g3 = "data_unset (data_unset (removeVertexBuffer (w_geometries w1 gr) bvb)
                 PNAME_BONE_MATRICES) PNAME_NUM_BONES"
    let ?w2 = "w1\<lparr>w_geometries := (w_geometries w1)(gr := ?g3)\<rparr>"
    have "removedHandler st1 w1 n' n p'
        = Inr (sb\<lparr>m_targetGeometry := (m_targetGeometry sb)(n := None),
                 m_targetStartTime := (m_targetStartTime sb)(n := None),
                 m_targetInputPositions := (m_targetInputPositions sb)(n := None),
                 m_targetInputNormals := (m_targetInputNormals sb)(n := None)\<rparr>, ?w2)"
      using False gsb bvb by (simp add: removedHandler_def sb Let_def fb m1 b1 fa)
    moreover have "bvb \<in> set (g_vertexBuffers (w_geometries w1 gr))"
      "g_data (w_geometries w1 gr) PNAME_BONE_MATRICES = Some (UniformArray 0 None)"
      "g_data (w_geometries w1 gr) PNAME_NUM_BONES = Some (IntValue 0)"
      using names by (simp_all add: w1' data_set_def addVertexBuffer_def)
    moreover have "bvb \<notin> set (g_vertexBuffers (w_geometries ?w2 gr))"
      "g_data (w_geometries ?w2 gr) PNAME_BONE_MATRICES = None"
      "g_data (w_geometries ?w2 gr) PNAME_NUM_BONES = None"
      by (simp_all add: data_unset_def removeVertexBuffer_def)
    ultimately show ?thesis using False surf eG eT eP eN bvb by simp
  qed
qed

lemma addedHandler_tracking:
  fixes st :: "('a::linordered_field) Skinning"
  assumes "addedHandler st w now n t p = Inr (st', w')" "trackingInvariant st"
  shows "trackingInvariant st'"
proof -
  obtain sa where sa: "findSceneManager st w = Inr sa"
    and cases: "(st' = sa \<and> w' = w) \<or>
      (\<exists>gr xyz. m_targetGeometry st' = (m_targetGeometry sa)(n \<mapsto> gr)
         \<and> m_targetStartTime st' = (m_targetStartTime sa)(n \<mapsto> now)
         \<and> m_targetInputPositions st'
             = (m_targetInputPositions sa)(n \<mapsto> vb_data (w_vertexBuffers w xyz))
         \<and> (m_targetInputNormals st' = m_targetInputNormals sa
              \<or> (\<exists>d. m_targetInputNormals st' = (m_targetInputNormals sa)(n \<mapsto> d))))"
    using addedHandler_cases[OF assms(1)] by blast
  have inv: "trackingInvariant sa"
    using assms(2) by (simp add: trackingInvariant_def findSceneManager_fields[OF sa])
  from cases show ?thesis
  proof
    assume "st' = sa \<and> w' = w"
    then show ?thesis using inv by simp
  next
    assume "\<exists>gr xyz. m_targetGeometry st' = (m_targetGeometry sa)(n \<mapsto> gr)
         \<and> m_targetStartTime st' = (m_targetStartTime sa)(n \<mapsto> now)
         \<and> m_targetInputPositions st'
             = (m_targetInputPositions sa)(n \<mapsto> vb_data (w_vertexBuffers w xyz))
         \<and> (m_targetInputNormals st' = m_targetInputNormals sa
              \<or> (\<exists>d. m_targetInputNormals st' = (m_targetInputNormals sa)(n \<mapsto> d)))"
    then obtain gr xyz where
          g: "m_targetGeometry st' = (m_targetGeometry sa)(n \<mapsto> gr)"
      and t: "m_targetStartTime st' = (m_targetStartTime sa)(n \<mapsto> now)"
      and p: "m_targetInputPositions st'
             = (m_targetInputPositions sa)(n \<mapsto> vb_data (w_vertexBuffers w xyz))"
      and nn: "m_targetInputNormals st' = m_targetInputNormals sa
              \<or> (\<exists>d. m_targetInputNormals st' = (m_targetInputNormals sa)(n \<mapsto> d))"
      by blast
    have "dom (m_targetInputNormals st') \<subseteq> insert n (dom (m_targetInputNormals sa))"
      using nn by auto
    then have "dom (m_targetInputNormals st') \<subseteq> insert n (dom (m_targetGeometry sa))"
      using inv unfolding trackingInvariant_def by blast
    moreover have "insert n (dom (m_targetGeometry sa)) \<subseteq> insert n (dom (m_targetStartTime sa))"
      using inv unfolding trackingInvariant_def by blast
    ultimately show ?thesis using inv by (simp add: trackingInvariant_def g t p)
  qed
qed

lemma removedHandler_tracking:
  assumes "removedHandler st w n t p = Inr (st', w')" "trackingInvariant st"
  shows "trackingInvariant st'"
proof -
  obtain sa where sa: "findSceneManager st w = Inr sa"
    using assms(1) by (auto simp: removedHandler_def split: sum.splits)
  have maps: "m_targetGeometry st' = (m_targetGeometry sa)(t := None)"
    "m_targetStartTime st' = (m_targetStartTime sa)(t := None)"
    "m_targetInputPositions st' = (m_targetInputPositions sa)(t := None)"
    "m_targetInputNormals st' = (m_targetInputNormals sa)(t := None)"
    using assms(1) unfolding removedHandler_def sa
    by (auto simp: Let_def split: option.splits if_splits)
  have "trackingInvariant sa"
    using assms(2) by (simp add: trackingInvariant_def findSceneManager_fields[OF sa])
  then show ?thesis unfolding trackingInvariant_def maps by (simp add: Diff_mono)
qed

lemma performSoftwareSkinning_state:
  assumes "performSoftwareSkinning st w target bm = Inr (st', w')"
  shows "m_targetGeometry st target \<noteq> None
     \<and> (\<exists>d. st' = st\<lparr>m_targetInputPositions := (m_targetInputPositions st)(target \<mapsto> d)\<rparr>)"
  using assms unfolding performSoftwareSkinning_def
  by (auto simp: Let_def split: option.splits sum.splits if_splits)

lemma updateFrame_tracking:
  assumes "updateFrame st w target frameId = Inr (st', w')" "trackingInvariant st"
  shows "trackingInvariant st'"
proof -
  have "st' = st \<or> (m_targetGeometry st target \<noteq> None
     \<and> (\<exists>d. st' = st\<lparr>m_targetInputPositions := (m_targetInputPositions st)(target \<mapsto> d)\<rparr>))"
    using assms(1) performSoftwareSkinning_state[of st w target _ st' w']
    unfolding updateFrame_def
    by (auto simp: Let_def split: option.splits if_splits PropertyValue.splits)
  then show ?thesis
  proof
    assume "st' = st"
    then show ?thesis using assms(2) by simp
  next
    assume a: "m_targetGeometry st target \<noteq> None
     \<and> (\<exists>d. st' = st\<lparr>m_targetInputPositions := (m_targetInputPositions st)(target \<mapsto> d)\<rparr>)"
    then obtain d where
      d: "st' = st\<lparr>m_targetInputPositions := (m_targetInputPositions st)(target \<mapsto> d)\<rparr>"
      by blast
    have "target \<in> dom (m_targetGeometry st)" using a by auto
    then have "insert target (dom (m_targetGeometry st)) = dom (m_targetGeometry st)"
      by (rule insert_absorb)
    then show ?thesis using assms(2) by (simp add: trackingInvariant_def d)
  qed
qed

lemma frameLoop_tracking:
  assumes "frameLoop st w time targets = Inr (st', w')" "trackingInvariant st"
  shows "trackingInvariant st'"
  using assms
proof (induction targets arbitrary: st w)
  case Nil
  then show ?case by simp
next
  case (Cons target targets)
  obtain sk where sk: "m_skin st = Some sk"
    using Cons.prems(1) by (auto split: option.splits)
  let ?start = "case m_targetStartTime st target of None \<Rightarrow> 0 | Some t \<Rightarrow> t"
  let ?st1 = "st\<lparr>m_targetStartTime := (m_targetStartTime st)(target \<mapsto> ?start)\<rparr>"
  obtain st2 w2 where u: "updateFrame ?st1 w target (getFrameId sk (time - of_int ?start)) = Inr (st2, w2)"
    and rest: "frameLoop st2 w2 time targets = Inr (st', w')"
    using Cons.prems(1) by (auto simp: sk Let_def split: sum.splits)
  have "trackingInvariant ?st1"
    using Cons.prems(2) by (auto simp: trackingInvariant_def)
  then have "trackingInvariant st2" using updateFrame_tracking[OF u] by simp
  then show ?case using Cons.IH[OF rest] by simp
qed

subsection \<open>The software path\<close>

text \<open>
  Claim C1. For a registered target and a frame in range, on the software path,
  \<open>updateFrame\<close> returns, and in the position buffer every output coordinate of every
  vertex is the weighted sum, over the (boneId, weight) pairs of the vertex, of the
  row of the bone's row-major 4x4 matrix applied to the bind-pose coordinate: row 0 gives
  \<open>x2 = sum of w * (m0*x1 + m1*y1 + m2*z1 + m3)\<close>, rows 1 and 2 give y2 and z2 with
  \<open>m4..m7\<close> and \<open>m8..m11\<close>. The bind-pose coordinate is read from the snapshot
  stored for the target at attachment, not from the live buffer. The hypotheses are the
  ones under which the C++ loop stays inside its vectors.
\<close>

theorem software_position_blend:
  fixes st :: "('a::{zero,plus,times}) Skinning"
  assumes sk: "m_skin st = Some sk"
    and meth: "m_method st = SOFTWARE"
    and reg: "m_targetGeometry st target = Some gr"
    and frame: "frameId < numFrames sk"
    and buf: "vertexBuffer w (w_geometries w gr) ATTRNAME_POSITION = Some xyz"
    and attr: "findAttribute (vb_attributes (w_vertexBuffers w xyz)) ATTRNAME_POSITION
                 = Some (name, width, off)"
    and snap: "m_targetInputPositions st target = Some snapshot"
    and ok: "skinningInputsOk sk (w_vertexBuffers w xyz) off snapshot (matrices sk frameId)"
    and nrm: "normalPassOk st w target gr xyz off sk (matrices sk frameId)"
  shows "\<exists>w'. updateFrame st w target frameId = Inr (st, w')
     \<and> (\<forall>v r. v < length (vb_data (w_vertexBuffers w xyz)) div vb_vertexSize (w_vertexBuffers w xyz)
               \<and> r < 3 \<longrightarrow>
           vb_data (w_vertexBuffers w' xyz) ! (off + v * vb_vertexSize (w_vertexBuffers w xyz) + r)
             = weightedSum False (matrices sk frameId) r
                 (bindPose snapshot off (vb_vertexSize (w_vertexBuffers w xyz)) v) (bonePairs sk v))"
proof -
  have "updateFrame st w target frameId = performSoftwareSkinning st w target (matrices sk frameId)"
    using sk meth reg frame by (simp add: updateFrame_def)
  then show ?thesis
    using performSoftwareSkinning_positions[OF sk reg buf attr snap ok nrm] by auto
qed

theorem software_position_blend_witness:
  "\<exists>w'. updateFrame demoState demoWorld 0 0 = Inr (demoState, w')
     \<and> map (\<lambda>i. vb_data (w_vertexBuffers w' 0) ! i) [0, 1, 2] = [6, 8, 10]"
proof -
  have sk: "m_skin demoState = Some demoSkin" by (simp add: demoState_def Skinning_new_def)
  have meth: "m_method demoState = SOFTWARE" by (simp add: demoState_def Skinning_new_def)
  have reg: "m_targetGeometry demoState 0 = Some 0" by (simp add: demoState_def)
  have frame: "0 < numFrames demoSkin" by (simp add: demoSkin_def)
  have vb: "w_vertexBuffers demoWorld 0 = demoBuffer" by (simp add: demoWorld_def)
  have buf: "vertexBuffer demoWorld (w_geometries demoWorld 0) ATTRNAME_POSITION = Some 0"
    by (simp add: vertexBuffer_def demoWorld_def demoBuffer_def hasAttribute_def)
  have attr: "findAttribute (vb_attributes (w_vertexBuffers demoWorld 0)) ATTRNAME_POSITION
      = Some (ATTRNAME_POSITION, 3, 0)"
    by (simp add: vb findAttribute_def demoBuffer_def ATTRNAME_POSITION_def)
  have snap: "m_targetInputPositions demoState 0 = Some (vb_data demoBuffer)"
    by (simp add: demoState_def)
  have ok: "skinningInputsOk demoSkin (w_vertexBuffers demoWorld 0) 0 (vb_data demoBuffer)
      (matrices demoSkin 0)"
    using demo_ok by (simp add: vb)
  have nrm: "normalPassOk demoState demoWorld 0 0 0 0 demoSkin (matrices demoSkin 0)"
    by (simp add: normalPassOk_def vertexBuffer_def demoWorld_def demoBuffer_def hasAttribute_def
        ATTRNAME_NORMAL_def ATTRNAME_POSITION_def)
  obtain w' where r: "updateFrame demoState demoWorld 0 0 = Inr (demoState, w')"
    "\<forall>v r. v < length (vb_data demoBuffer) div vb_vertexSize demoBuffer \<and> r < 3 \<longrightarrow>
       vb_data (w_vertexBuffers w' 0) ! (0 + v * vb_vertexSize demoBuffer + r)
         = weightedSum False (matrices demoSkin 0) r
             (bindPose (vb_data demoBuffer) 0 (vb_vertexSize demoBuffer) v) (bonePairs demoSkin v)"
    using software_position_blend[OF sk meth reg frame buf attr snap ok nrm] unfolding vb by blast
  have nv: "(0::nat) < length (vb_data demoBuffer) div vb_vertexSize demoBuffer"
    by (simp add: demoBuffer_def)
  have "vb_data (w_vertexBuffers w' 0) ! 0 = 6"
    using r(2)[rule_format, of 0 0] nv
    by (simp add: demo_pairs demo_matrices weightedSum_def rowTerm_def bindPose_def demoBuffer_def)
  moreover have "vb_data (w_vertexBuffers w' 0) ! 1 = 8"
    using r(2)[rule_format, of 0 1] nv
    by (simp add: demo_pairs demo_matrices weightedSum_def rowTerm_def bindPose_def demoBuffer_def)
  moreover have "vb_data (w_vertexBuffers w' 0) ! 2 = 10"
    using r(2)[rule_format, of 0 2] nv
    by (simp add: demo_pairs demo_matrices weightedSum_def rowTerm_def bindPose_def demoBuffer_def
        numeral_2_eq_2)
  ultimately show ?thesis using r(1) by auto
qed

text \<open>
  Claim C2. A vertex with the single pair (boneId, weight 1) whose bone matrix is a pure
  translation: the position transform writes the bind-pose coordinate shifted by the
  translation, the delta transform of the same matrix writes the bind-pose coordinate
  unchanged. Numbers are taken in any semiring, where \<open>1 * a = a\<close>, \<open>0 * a = 0\<close>
  and \<open>a + 0 = a\<close> hold as they do on finite floats.
\<close>

theorem translation_moves_positions_not_directions:
  fixes inp :: "('a::semiring_1) list"
  assumes ok: "skinningInputsOk sk vb off inp bm"
    and v: "v < length (vb_data vb) div vb_vertexSize vb"
    and one: "numVertexBones sk v = 1"
    and pair: "vertexBoneData sk v 0 = (b, 1)"
    and tr: "pureTranslation bm b (tx, ty, tz)"
  shows "\<exists>vbP vbD.
       performSoftwareSkinningAttr sk (Some (name, width, off)) vb inp bm False = Inr vbP
     \<and> performSoftwareSkinningAttr sk (Some (name, width, off)) vb inp bm True = Inr vbD
     \<and> vb_data vbP ! (off + v * vb_vertexSize vb) = inp ! (off + v * vb_vertexSize vb) + tx
     \<and> vb_data vbP ! (off + v * vb_vertexSize vb + 1) = inp ! (off + v * vb_vertexSize vb + 1) + ty
     \<and> vb_data vbP ! (off + v * vb_vertexSize vb + 2) = inp ! (off + v * vb_vertexSize vb + 2) + tz
     \<and> vb_data vbD ! (off + v * vb_vertexSize vb) = inp ! (off + v * vb_vertexSize vb)
     \<and> vb_data vbD ! (off + v * vb_vertexSize vb + 1) = inp ! (off + v * vb_vertexSize vb + 1)
     \<and> vb_data vbD ! (off + v * vb_vertexSize vb + 2) = inp ! (off + v * vb_vertexSize vb + 2)"
proof -
  let ?vs = "vb_vertexSize vb"
  let ?p = "bindPose inp off ?vs v"
  have res: "\<exists>out'. performSoftwareSkinningAttr sk (Some (name, width, off)) vb inp bm dd
       = Inr (upload (vb\<lparr>vb_data := out'\<rparr>))
     \<and> (\<forall>r<3. out' ! (off + v * ?vs + r) = weightedSum dd bm r ?p (bonePairs sk v))" for dd
    using performSoftwareSkinningAttr_result[OF ok, of name width dd] v by blast
  have pairs: "bonePairs sk v = [(b, 1)]" using one pair by (simp add: bonePairs_def)
  have "b = vertexBoneId sk v 0" using pair by (simp add: vertexBoneData_def)
  then have "b < numBones sk" using ok v one by (simp add: skinningInputsOk_def)
  then have "16 * b + 12 \<le> length bm" using ok by (simp add: skinningInputsOk_def)
  note m = pureTranslation_entries[OF tr this]
  have m': "bm ! (b * 16) = 1" "bm ! (b * 16 + 1) = 0" "bm ! (b * 16 + 2) = 0" "bm ! (b * 16 + 3) = tx"
       "bm ! (b * 16 + 4) = 0" "bm ! (b * 16 + 5) = 1" "bm ! (b * 16 + 6) = 0" "bm ! (b * 16 + 7) = ty"
       "bm ! (b * 16 + 8) = 0" "bm ! (b * 16 + 9) = 0" "bm ! (b * 16 + 10) = 1" "bm ! (b * 16 + 11) = tz"
    using m[of 0] m[of 1] m[of 2] m[of 3] m[of 4] m[of 5] m[of 6] m[of 7] m[of 8] m[of 9]
      m[of 10] m[of 11] by simp_all
  have m'': "bm ! Suc (b * 16) = 0" "bm ! Suc (Suc (b * 16)) = 0" "bm ! (3 + b * 16) = tx"
       "bm ! (4 + b * 16) = 0" "bm ! (5 + b * 16) = 1" "bm ! (6 + b * 16) = 0" "bm ! (7 + b * 16) = ty"
       "bm ! (8 + b * 16) = 0" "bm ! (9 + b * 16) = 0" "bm ! (10 + b * 16) = 1" "bm ! (11 + b * 16) = tz"
    using m' by (simp_all add: add.commute)
  have P: "weightedSum False bm 0 ?p [(b, 1)] = inp ! (off + v * ?vs) + tx"
      "weightedSum False bm 1 ?p [(b, 1)] = inp ! (off + v * ?vs + 1) + ty"
      "weightedSum False bm 2 ?p [(b, 1)] = inp ! (off + v * ?vs + 2) + tz"
    by (simp_all add: weightedSum_def rowTerm_def bindPose_def m' m'')
  have D: "weightedSum True bm 0 ?p [(b, 1)] = inp ! (off + v * ?vs)"
      "weightedSum True bm 1 ?p [(b, 1)] = inp ! (off + v * ?vs + 1)"
      "weightedSum True bm 2 ?p [(b, 1)] = inp ! (off + v * ?vs + 2)"
    by (simp_all add: weightedSum_def rowTerm_def bindPose_def m' m'')
  obtain outP where p: "performSoftwareSkinningAttr sk (Some (name, width, off)) vb inp bm False
       = Inr (upload (vb\<lparr>vb_data := outP\<rparr>))"
     "\<forall>r<3. outP ! (off + v * ?vs + r) = weightedSum False bm r ?p (bonePairs sk v)"
    using res[of False] by blast
  obtain outD where d: "performSoftwareSkinningAttr sk (Some (name, width, off)) vb inp bm True
       = Inr (upload (vb\<lparr>vb_data := outD\<rparr>))"
     "\<forall>r<3. outD ! (off + v * ?vs + r) = weightedSum True bm r ?p (bonePairs sk v)"
    using res[of True] by blast
  show ?thesis
    using p(1) d(1) p(2)[rule_format, of 0] p(2)[rule_format, of 1] p(2)[rule_format, of 2]
      d(2)[rule_format, of 0] d(2)[rule_format, of 1] d(2)[rule_format, of 2] P D
    by (simp add: pairs upload_def)
qed

theorem translation_moves_positions_not_directions_witness:
  "\<exists>vbP vbD.
       performSoftwareSkinningAttr demoSkin (Some (ATTRNAME_POSITION, 3, 0)) demoBuffer
         (vb_data demoBuffer) (matrices demoSkin 0) False = Inr vbP
     \<and> performSoftwareSkinningAttr demoSkin (Some (ATTRNAME_POSITION, 3, 0)) demoBuffer
         (vb_data demoBuffer) (matrices demoSkin 0) True = Inr vbD
     \<and> map (\<lambda>i. vb_data vbP ! i) [0, 1, 2] = [1 + 5, 2 + 6, 3 + 7]
     \<and> map (\<lambda>i. vb_data vbD ! i) [0, 1, 2] = [1, 2, 3]"
proof -
  have v: "0 < length (vb_data demoBuffer) div vb_vertexSize demoBuffer"
    by (simp add: demoBuffer_def)
  have one: "numVertexBones demoSkin 0 = 1" by (simp add: demoSkin_def)
  have pair: "vertexBoneData demoSkin 0 0 = (0, 1)" by (simp add: vertexBoneData_def demoSkin_def)
  have tr: "pureTranslation (matrices demoSkin 0) 0 (5, 6, 7)"
    by (simp add: pureTranslation_def demo_matrices)
  show ?thesis
    using translation_moves_positions_not_directions[OF demo_ok v one pair tr, of ATTRNAME_POSITION 3]
    by (simp add: demoBuffer_def numeral_2_eq_2)
qed

text \<open>
  Claim C9. The pass over one attribute returns the buffer with the same size and
  layout, and every float that is not one of the three floats at the attribute's offset
  in the row of a vertex keeps its value; in particular every float whose position in
  its row lies outside the attribute does.
\<close>

theorem software_skinning_frame:
  assumes ok: "skinningInputsOk sk vb off inp bm"
  shows "\<exists>vb'. performSoftwareSkinningAttr sk (Some (name, width, off)) vb inp bm dd = Inr vb'
     \<and> length (vb_data vb') = length (vb_data vb)
     \<and> vb_attributes vb' = vb_attributes vb \<and> vb_vertexSize vb' = vb_vertexSize vb
     \<and> (\<forall>i. (\<forall>v r. v < length (vb_data vb) div vb_vertexSize vb \<and> r < 3
                  \<longrightarrow> i \<noteq> off + v * vb_vertexSize vb + r)
            \<longrightarrow> vb_data vb' ! i = vb_data vb ! i)
     \<and> (\<forall>i. i mod vb_vertexSize vb < off \<or> off + 3 \<le> i mod vb_vertexSize vb
            \<longrightarrow> vb_data vb' ! i = vb_data vb ! i)"
proof -
  let ?vs = "vb_vertexSize vb"
  obtain out' where r:
    "performSoftwareSkinningAttr sk (Some (name, width, off)) vb inp bm dd
       = Inr (upload (vb\<lparr>vb_data := out'\<rparr>))"
    "length out' = length (vb_data vb)"
    "\<forall>i. (\<forall>v r. v < length (vb_data vb) div ?vs \<and> r < 3 \<longrightarrow> i \<noteq> off + v * ?vs + r)
         \<longrightarrow> out' ! i = vb_data vb ! i"
    using performSoftwareSkinningAttr_result[OF ok, of name width dd] by blast
  have vs: "off + 3 \<le> ?vs" using ok by (simp add: skinningInputsOk_def)
  have "out' ! i = vb_data vb ! i" if m: "i mod ?vs < off \<or> off + 3 \<le> i mod ?vs" for i
  proof -
    have "i \<noteq> off + v * ?vs + r" if "r < 3" for v r
    proof
      assume "i = off + v * ?vs + r"
      then have "i mod ?vs = off + r" using attribute_row_mod[OF vs that] by simp
      then show False using m that by simp
    qed
    then show ?thesis using r(3) by blast
  qed
  then show ?thesis using r by (simp add: upload_def)
qed

theorem software_skinning_frame_witness:
  "\<exists>vb'. performSoftwareSkinningAttr demoSkin (Some (ATTRNAME_POSITION, 3, 0)) demoBuffer
            (vb_data demoBuffer) (matrices demoSkin 0) False = Inr vb'
     \<and> map (\<lambda>i. vb_data vb' ! i) [3, 4, 8, 9] = [40, 50, 70, 80]"
proof -
  obtain vb' where r:
    "performSoftwareSkinningAttr demoSkin (Some (ATTRNAME_POSITION, 3, 0)) demoBuffer
            (vb_data demoBuffer) (matrices demoSkin 0) False = Inr vb'"
    "\<forall>i. i mod vb_vertexSize demoBuffer < 0 \<or> 0 + 3 \<le> i mod vb_vertexSize demoBuffer
            \<longrightarrow> vb_data vb' ! i = vb_data demoBuffer ! i"
    using software_skinning_frame[OF demo_ok, of ATTRNAME_POSITION 3 False] by blast
  have "vb_data vb' ! 3 = 40" "vb_data vb' ! 4 = 50" "vb_data vb' ! 8 = 70" "vb_data vb' ! 9 = 80"
    using r(2)[rule_format, of 3] r(2)[rule_format, of 4] r(2)[rule_format, of 8]
      r(2)[rule_format, of 9]
    by (simp_all add: demoBuffer_def)
  then show ?thesis using r(1) by simp
qed



subsection \<open>Initialisation\<close>

text \<open>
  Claim C3. With a skin and a context present and a method other than SOFTWARE requested:
  if the skin's \<open>maxNumVertexBones\<close> exceeds the cap of 8, \<open>initialize\<close> does not fail,
  the method afterwards is SOFTWARE, no bone vertex buffer is created and the heap of
  buffers is untouched; if it is at most 8, every state \<open>initialize\<close> returns keeps
  the requested method, and \<open>initialize\<close> does return with a bone vertex buffer when
  the packed data (16 floats per vertex) fits the range of \<open>unsigned int\<close>.
\<close>

theorem initialize_bone_cap:
  fixes st :: "('a::semiring_1) Skinning"
  assumes skin: "m_skin st = Some sk" and ctx: "m_context st \<noteq> None"
    and req: "m_method st \<noteq> SOFTWARE"
  shows "(maxNumVertexBones sk > 8 \<longrightarrow>
            (\<exists>st'. initialize st w = Inr (st', w) \<and> m_method st' = SOFTWARE
                   \<and> m_boneVertexBuffer st' = None))
       \<and> (maxNumVertexBones sk \<le> 8 \<longrightarrow>
            (\<forall>st' w'. initialize st w = Inr (st', w') \<longrightarrow> m_method st' = m_method st))
       \<and> (maxNumVertexBones sk \<le> 8 \<and> numVertices sk * 16 < 2 ^ 32 \<longrightarrow>
            (\<exists>st' w'. initialize st w = Inr (st', w') \<and> m_method st' = m_method st
                   \<and> m_boneVertexBuffer st' \<noteq> None))"
proof (intro conjI impI)
  assume "maxNumVertexBones sk > 8"
  then show "\<exists>st'. initialize st w = Inr (st', w) \<and> m_method st' = SOFTWARE
                   \<and> m_boneVertexBuffer st' = None"
    using skin ctx req by (simp add: initialize_def MAX_NUM_BONES_PER_VERTEX_def)
next
  assume "maxNumVertexBones sk \<le> 8"
  then show "\<forall>st' w'. initialize st w = Inr (st', w') \<longrightarrow> m_method st' = m_method st"
    using skin ctx req
    by (auto simp: initialize_def MAX_NUM_BONES_PER_VERTEX_def Let_def split: sum.splits)
next
  assume a: "maxNumVertexBones sk \<le> 8 \<and> numVertices sk * 16 < 2 ^ 32"
  then obtain vb where "createVertexBufferForBones sk = Inr vb"
    using createVertexBufferForBones_result[of sk] by blast
  then show "\<exists>st' w'. initialize st w = Inr (st', w') \<and> m_method st' = m_method st
                   \<and> m_boneVertexBuffer st' \<noteq> None"
    using skin ctx req a by (simp add: initialize_def MAX_NUM_BONES_PER_VERTEX_def Let_def)
qed

theorem initialize_bone_cap_witness:
  "(\<exists>st'. initialize (demoHardware demoSkin12) demoWorld = Inr (st', demoWorld)
        \<and> m_method st' = SOFTWARE \<and> m_boneVertexBuffer st' = None)
   \<and> (\<exists>st' w'. initialize (demoHardware demoSkin) demoWorld = Inr (st', w')
        \<and> m_method st' = HARDWARE \<and> m_boneVertexBuffer st' \<noteq> None)"
proof -
  have h: "m_skin (demoHardware sk) = Some sk" "m_context (demoHardware sk) \<noteq> None"
    "m_method (demoHardware sk) \<noteq> SOFTWARE" "m_method (demoHardware sk) = HARDWARE" for sk
    by (simp_all add: demoHardware_def Skinning_new_def)
  have big: "maxNumVertexBones demoSkin12 > 8" by (simp add: demoSkin12_def)
  have small: "maxNumVertexBones demoSkin \<le> 8 \<and> numVertices demoSkin * 16 < 2 ^ 32"
    by (simp add: demoSkin_def)
  show ?thesis
    using initialize_bone_cap[OF h(1,2,3), of demoSkin12 demoWorld]
      initialize_bone_cap[OF h(1,2,3), of demoSkin demoWorld] big small
    by (simp add: h(4))
qed

subsection \<open>The frame update guard\<close>

text \<open>
  Claim C5. If the target has no entry in the geometry map, or the frame index is not
  below the number of frames of the skin, \<open>updateFrame\<close> returns without error and
  leaves the component and the world (vertex buffers, property stores) as they were.
\<close>

theorem updateFrame_skips:
  assumes "m_targetGeometry st target = None
           \<or> (m_skin st = Some sk \<and> frameId \<ge> numFrames sk)"
  shows "updateFrame st w target frameId = Inr (st, w)"
  using assms by (auto simp: updateFrame_def split: option.splits)

theorem updateFrame_skips_witness:
  "updateFrame demoState demoWorld 5 0 = Inr (demoState, demoWorld)
   \<and> updateFrame demoState demoWorld 0 1 = Inr (demoState, demoWorld)"
proof -
  have a: "m_targetGeometry demoState 5 = None" by (simp add: demoState_def)
  have b: "m_skin demoState = Some demoSkin \<and> 1 \<ge> numFrames demoSkin"
    by (simp add: demoState_def Skinning_new_def demoSkin_def)
  show ?thesis
    using updateFrame_skips[of demoState 5 demoSkin 0 demoWorld]
      updateFrame_skips[of demoState 0 demoSkin 1 demoWorld] a b by simp
qed

subsection \<open>The scene manager lookup\<close>

text \<open>
  Claim C8. When the lookup finds more than one root that carries a scene manager, it
  raises the logic error, and so do \<open>addedHandler\<close> and \<open>removedHandler\<close>, which
  start with the lookup; with exactly one such root the frame slot is connected to
  that root's scene manager; with none the frame slot is cleared and no error is raised.
\<close>

theorem findSceneManager_cases:
  fixes st :: "('a::linordered_field) Skinning"
  shows "(length (driverRoots w) > 1 \<longrightarrow>
            findSceneManager st w = Inl (LogicError ''Renderer cannot be in two separate scenes.'')
          \<and> addedHandler st w now node target parent
              = Inl (LogicError ''Renderer cannot be in two separate scenes.'')
          \<and> removedHandler st w node target parent
              = Inl (LogicError ''Renderer cannot be in two separate scenes.''))
       \<and> (length (driverRoots w) = 1 \<longrightarrow>
            (\<exists>sm. w_sceneManager w (driverRoots w ! 0) = Some sm
                \<and> findSceneManager st w = Inr (st\<lparr>m_frameBeginSlot := Some sm\<rparr>)))
       \<and> (length (driverRoots w) = 0 \<longrightarrow>
            (\<exists>st'. findSceneManager st w = Inr st' \<and> m_frameBeginSlot st' = None
                \<and> st' = st\<lparr>m_frameBeginSlot := None\<rparr>))"
proof (intro conjI impI)
  assume "length (driverRoots w) = 1"
  then have "driverRoots w ! 0 \<in> set (driverRoots w)" by (intro nth_mem) simp
  then obtain sm where sm: "w_sceneManager w (driverRoots w ! 0) = Some sm"
    by (auto simp: driverRoots_def nodeSet_where_def)
  then show "\<exists>sm. w_sceneManager w (driverRoots w ! 0) = Some sm
                \<and> findSceneManager st w = Inr (st\<lparr>m_frameBeginSlot := Some sm\<rparr>)"
    using \<open>length (driverRoots w) = 1\<close>
    by (simp add: findSceneManager_def Let_def setSceneManager_def)
qed (simp_all add: findSceneManager_def addedHandler_def removedHandler_def Let_def setSceneManager_def)

theorem findSceneManager_cases_witness:
  "addedHandler demoState demoWorldTwoScenes 0 0 0 0
      = Inl (LogicError ''Renderer cannot be in two separate scenes.'')
   \<and> removedHandler demoState demoWorldTwoScenes 0 0 0
      = Inl (LogicError ''Renderer cannot be in two separate scenes.'')
   \<and> findSceneManager demoState demoWorld = Inr (demoState\<lparr>m_frameBeginSlot := Some 0\<rparr>)
   \<and> findSceneManager (demoState\<lparr>m_frameBeginSlot := Some 0\<rparr>) (demoWorld\<lparr>w_targets := []\<rparr>)
      = Inr (demoState\<lparr>m_frameBeginSlot := None\<rparr>)"
  using findSceneManager_cases[of demoWorldTwoScenes demoState 0 0 0 0]
    findSceneManager_cases[of demoWorld demoState 0 0 0 0]
    findSceneManager_cases[of "demoWorld\<lparr>w_targets := []\<rparr>" "demoState\<lparr>m_frameBeginSlot := Some 0\<rparr>" 0 0 0 0]
  by (simp add: demo_roots) (simp add: demoWorld_def)

subsection \<open>Packing the bone vertex buffer\<close>

text \<open>
  The example of the specification is packed as it says: a vertex with the bones 2, 5
  and 9 and the weights 0.5, 0.3 and 0.2 has the ids in the slots 0 to 2, the weights in
  the slots 8 to 10 and zeros elsewhere.
\<close>

lemma three_bones_packed:
  "\<exists>vb. createVertexBufferForBones threeBoneSkin = Inr vb
        \<and> map (\<lambda>s. vb_data vb ! s) [0, 1, 2, 3, 4, 5, 6, 7]
            = [2, 5, 9, 0, 0, 0, 0, 0]
        \<and> map (\<lambda>s. vb_data vb ! s) [8, 9, 10, 11, 12, 13, 14, 15]
            = [5 / 10, 3 / 10, 2 / 10, 0, 0, 0, 0, 0]"
proof -
  have h: "maxNumVertexBones threeBoneSkin \<le> 8" "numVertices threeBoneSkin * 16 < 2 ^ 32"
    by (simp_all add: threeBoneSkin_def)
  obtain vb where c: "createVertexBufferForBones threeBoneSkin = Inr vb"
    and "\<forall>v s. v < numVertices threeBoneSkin \<and> s < 16 \<longrightarrow>
           vb_data vb ! (v * 16 + s) = packedSlot threeBoneSkin v s 0"
    using createVertexBufferForBones_result[OF h] by blast
  then have r: "s < 16 \<Longrightarrow> vb_data vb ! s = packedSlot threeBoneSkin 0 s 0" for s
    by (simp add: threeBoneSkin_def)
  have "map (\<lambda>s. vb_data vb ! s) [0, 1, 2, 3, 4, 5, 6, 7] = [2, 5, 9, 0, 0, 0, 0, 0]"
       "map (\<lambda>s. vb_data vb ! s) [8, 9, 10, 11, 12, 13, 14, 15]
            = [5 / 10, 3 / 10, 2 / 10, 0, 0, 0, 0, 0]"
    using r[of 0] r[of 1] r[of 2] r[of 3] r[of 4] r[of 5] r[of 6] r[of 7] r[of 8] r[of 9] r[of 10] r[of 11] r[of 12] r[of 13] r[of 14] r[of 15]
    by (simp_all add: packedSlot_def threeBoneSkin_def numeral_2_eq_2)
  then show ?thesis using c by simp
qed

text \<open>
  Claim C4 says that row \<open>v\<close> of the bone vertex buffer holds the bone ids of the
  vertex in the slots 0 to 7 and its weights in the slots 8 to 15, each group filled up to
  the vertex's bone count. The layout comment of \<open>createVertexBufferForBones\<close> and the
  cap of 8 say the same, but both inner loops stop at \<open>vertexSize >> 2\<close>, which is 4.
  For a skin within the cap whose vertex has the five bones 1 to 5 with weight 0.2 each,
  the function returns a row whose slot 4 holds 0, not the fifth id 5, and whose slot 12
  holds 0, not the fifth weight 0.2.
\<close>

theorem five_bones_packed_as_four:
  "maxNumVertexBones fiveBoneSkin \<le> 8
   \<and> numVertexBones fiveBoneSkin 0 = 5
   \<and> vertexBoneId fiveBoneSkin 0 4 = 5
   \<and> vertexBoneWeight fiveBoneSkin 0 4 = 2 / 10
   \<and> (\<exists>vb. createVertexBufferForBones fiveBoneSkin = Inr vb
        \<and> map (\<lambda>s. vb_data vb ! s) [0, 1, 2, 3, 4, 5, 6, 7]
            = [1, 2, 3, 4, 0, 0, 0, 0]
        \<and> map (\<lambda>s. vb_data vb ! s) [8, 9, 10, 11, 12, 13, 14, 15]
            = [2 / 10, 2 / 10, 2 / 10, 2 / 10, 0, 0, 0, 0])"
proof -
  have h: "maxNumVertexBones fiveBoneSkin \<le> 8" "numVertices fiveBoneSkin * 16 < 2 ^ 32"
    by (simp_all add: fiveBoneSkin_def)
  obtain vb where c: "createVertexBufferForBones fiveBoneSkin = Inr vb"
    and "\<forall>v s. v < numVertices fiveBoneSkin \<and> s < 16 \<longrightarrow>
           vb_data vb ! (v * 16 + s) = packedSlot fiveBoneSkin v s 0"
    using createVertexBufferForBones_result[OF h] by blast
  then have r: "s < 16 \<Longrightarrow> vb_data vb ! s = packedSlot fiveBoneSkin 0 s 0" for s
    by (simp add: fiveBoneSkin_def)
  have "map (\<lambda>s. vb_data vb ! s) [0, 1, 2, 3, 4, 5, 6, 7] = [1, 2, 3, 4, 0, 0, 0, 0]"
       "map (\<lambda>s. vb_data vb ! s) [8, 9, 10, 11, 12, 13, 14, 15]
            = [2 / 10, 2 / 10, 2 / 10, 2 / 10, 0, 0, 0, 0]"
    using r[of 0] r[of 1] r[of 2] r[of 3] r[of 4] r[of 5] r[of 6] r[of 7] r[of 8] r[of 9] r[of 10] r[of 11] r[of 12] r[of 13] r[of 14] r[of 15]
    by (simp_all add: packedSlot_def fiveBoneSkin_def)
  then show ?thesis using c by (simp add: fiveBoneSkin_def)
qed

subsection \<open>Attaching and detaching\<close>

text \<open>
  Claim C6 says that attaching a compatible node and then detaching it leaves no entry
  for the node in the four per-target maps and, for a method other than SOFTWARE, removes
  the bone vertex buffer and both bindings from the geometry. \<open>addedHandler\<close>
  registers under its first argument \<open>node\<close>; \<open>removedHandler\<close> ignores its first
  argument and erases under its second, \<open>target\<close>. For the event in which node 1, an
  ancestor of node 0, is added under node 9 and then removed from it, both handlers of
  node 0 receive (0, 1, 9): the attach registers node 0, the detach erases the keys of
  node 1 and changes nothing, so node 0 keeps its entries, and in hardware mode its
  geometry keeps the bone vertex buffer and both bindings.
\<close>

theorem detach_misses_attached_node:
  "addedHandler demoInitialized demoWorld 7 0 1 9 = Inr (demoAttached, demoWorld)
   \<and> removedHandler demoAttached demoWorld 0 1 9 = Inr (demoAttached, demoWorld)
   \<and> m_targetGeometry demoInitialized 0 = None
   \<and> m_targetGeometry demoAttached 0 = Some 0
   \<and> m_targetStartTime demoAttached 0 = Some 7
   \<and> m_targetInputPositions demoAttached 0 = Some (vb_data demoBuffer)
   \<and> addedHandler demoHardwareInitialized demoWorld 7 0 1 9
        = Inr (demoHardwareAttached, demoWorldSkinned)
   \<and> removedHandler demoHardwareAttached demoWorldSkinned 0 1 9
        = Inr (demoHardwareAttached, demoWorldSkinned)
   \<and> m_targetGeometry demoHardwareAttached 0 = Some 0
   \<and> m_boneVertexBuffer demoHardwareAttached = Some 1
   \<and> 1 \<in> set (g_vertexBuffers (w_geometries demoWorldSkinned 0))
   \<and> g_data (w_geometries demoWorldSkinned 0) PNAME_BONE_MATRICES = Some (UniformArray 0 None)
   \<and> g_data (w_geometries demoWorldSkinned 0) PNAME_NUM_BONES = Some (IntValue 0)"
proof -
  have software: "m_targetGeometry demoInitialized 0 = None"
    "m_targetGeometry demoAttached 0 = Some 0"
    "m_targetStartTime demoAttached 0 = Some 7"
    "m_targetInputPositions demoAttached 0 = Some (vb_data demoBuffer)"
    by (simp_all add: demoAttached_def demoInitialized_def Skinning_new_def)
  have hardware: "m_targetGeometry demoHardwareAttached 0 = Some 0"
    "m_boneVertexBuffer demoHardwareAttached = Some 1"
    by (simp_all add: demoHardwareAttached_def demoHardwareInitialized_def)
  have geometry: "1 \<in> set (g_vertexBuffers (w_geometries demoWorldSkinned 0))"
    "g_data (w_geometries demoWorldSkinned 0) PNAME_BONE_MATRICES = Some (UniformArray 0 None)"
    "g_data (w_geometries demoWorldSkinned 0) PNAME_NUM_BONES = Some (IntValue 0)"
    by (simp_all add: demoWorldSkinned_def PNAME_BONE_MATRICES_def PNAME_NUM_BONES_def)
  show ?thesis
    using demo_attach[of 1 9] demo_detach_other demo_hardware_attach demo_hardware_detach_other
      software hardware geometry
    by simp
qed

text \<open>
  Claim C7, as stated, fails in two ways. A node whose geometry has a position
  attribute but no normal attribute is attached: afterwards it has an entry in the
  geometry map and none in the map of input normals. And a frame tick before an attach
  indexes the start times of all targets of the component: after the attach of node 0 the
  target 5, which was never attached, has a start time and no geometry.
\<close>

theorem tracked_without_normals:
  "initialize (Skinning_new (Some demoSkin) SOFTWARE (Some 0)) demoWorld
     = Inr (demoInitialized, demoWorld)
   \<and> addedHandler demoInitialized demoWorld 7 0 0 0 = Inr (demoAttached, demoWorld)
   \<and> m_targetGeometry demoAttached 0 = Some 0
   \<and> m_targetInputNormals demoAttached 0 = None
   \<and> dom (m_targetGeometry demoAttached) \<noteq> dom (m_targetInputNormals demoAttached)
   \<and> frameBeginHandler demoInitialized demoWorldTwoTargets 0
        = Inr (demoTicked, demoWorldTwoTargets)
   \<and> addedHandler demoTicked demoWorldTwoTargets 7 0 0 0
        = Inr (demoTickedAttached, demoWorldTwoTargets)
   \<and> m_targetStartTime demoTickedAttached 5 = Some 0
   \<and> m_targetGeometry demoTickedAttached 5 = None
   \<and> dom (m_targetStartTime demoTickedAttached) \<noteq> dom (m_targetGeometry demoTickedAttached)"
proof -
  have normals: "m_targetGeometry demoAttached 0 = Some 0"
    "m_targetInputNormals demoAttached 0 = None"
    "dom (m_targetGeometry demoAttached) \<noteq> dom (m_targetInputNormals demoAttached)"
    by (simp_all add: demoAttached_def demoInitialized_def Skinning_new_def)
  have start: "m_targetStartTime demoTickedAttached 5 = Some 0"
    "m_targetGeometry demoTickedAttached 5 = None"
    by (simp_all add: demoTickedAttached_def demoInitialized_def Skinning_new_def)
  then have "dom (m_targetStartTime demoTickedAttached) \<noteq> dom (m_targetGeometry demoTickedAttached)"
    by (metis domIff option.distinct(1))
  then show ?thesis
    using demo_initialize demo_attach[of 0 0] demo_tick demo_tick_attach normals start by simp
qed

text \<open>
  Claim C7, amended. In every state the component reaches from its construction by
  \<open>initialize\<close>, attach, detach and frame tick operations, so in particular after every
  attach or detach operation, the maps of the geometry and the input positions have
  exactly the same key set, the key set of the map of input normals is contained in it,
  and it is contained in the key set of the map of start times.
\<close>

theorem lifecycle_tracking:
  assumes "lifecycle st"
  shows "trackingInvariant st"
  using assms
proof (induction rule: lifecycle.induct)
  case (constructed sk meth ctx)
  show ?case by (simp add: trackingInvariant_def Skinning_new_def)
next
  case (initialized st w st' w')
  then show ?case by (simp add: trackingInvariant_def initialize_tracking)
next
  case (attached st w now node target parent st' w')
  then show ?case using addedHandler_tracking by blast
next
  case (detached st w node target parent st' w')
  then show ?case using removedHandler_tracking by blast
next
  case (ticked st w time st' w')
  then show ?case using frameLoop_tracking by (simp add: frameBeginHandler_def) blast
qed

theorem lifecycle_tracking_witness:
  "lifecycle demoTickedAttached \<and> trackingInvariant demoTickedAttached
   \<and> dom (m_targetGeometry demoTickedAttached) = {0}
   \<and> dom (m_targetInputPositions demoTickedAttached) = {0}
   \<and> dom (m_targetInputNormals demoTickedAttached) = {}
   \<and> dom (m_targetStartTime demoTickedAttached) = {0, 5}"
proof -
  have "lifecycle demoInitialized"
    by (rule lifecycle.initialized[OF lifecycle.constructed demo_initialize])
  then have "lifecycle demoTicked" by (rule lifecycle.ticked[OF _ demo_tick])
  then have l: "lifecycle demoTickedAttached" by (rule lifecycle.attached[OF _ demo_tick_attach])
  show ?thesis using lifecycle_tracking[OF l] l
    by (auto simp: demoTickedAttached_def demoInitialized_def Skinning_new_def)
qed

end
